theory Spec2Isabelle
  imports Main "HOL-Library.Sublist"
begin

section \<open>Data model\<close>

text \<open>
  The objects the adapter reads out of upstream JSON. A channel carries the three fields
  the resolver looks at; a message carries its optional text and its timestamp; a
  response carries the \<open>ok\<close> flag and the arrays the code reads from it.
\<close>

record channel =
  ch_id :: string
  name :: string
  name_normalized :: string

record message =
  msg_text :: "string option"
  ts :: string

record response =
  ok :: bool
  channels :: "channel list"
  messages :: "message list"
  resp_user_id :: "string option"

text \<open>
  The flat argument record of a tool call. A key that is absent in the JSON object is
  \<open>None\<close>. The field \<open>arg_text\<close> is the key \<open>text\<close>.
\<close>

record tool_args =
  channel_id :: "string option"
  channel_name :: "string option"
  arg_text :: "string option"
  thread_ts :: "string option"
  user_id :: "string option"
  limit :: "int option"
  cursor :: "string option"

text \<open>
  The outbound HTTP requests, one constructor per upstream endpoint with the
  parameters the code puts into the query string or the body.
\<close>

datatype request =
    ConversationsList int "string option"
  | ConversationsHistory string int
  | ChatPostMessage string "string option"
  | ChatPostReply string "string option" "string option"
  | ConversationsReplies string "string option"
  | UsersList int "string option"
  | UsersProfileGet "string option"
  | AuthTest

datatype error_code = InvalidRequest | MethodNotFound

datatype exn = Error string | McpError error_code string

text \<open>The numeric value of an \<open>ErrorCode\<close>, as \<open>String(code)\<close> prints it.\<close>

fun error_code_string :: "error_code \<Rightarrow> string" where
  "error_code_string InvalidRequest = ''-32600''"
| "error_code_string MethodNotFound = ''-32601''"

text \<open>
  \<open>error.message\<close>. The constructor of \<open>McpError\<close> passes
  \<open>`MCP error ${code}: ${message}`\<close> to \<open>Error\<close>, so that is its message.
\<close>

fun error_message :: "exn \<Rightarrow> string" where
  "error_message (Error m) = m"
| "error_message (McpError c m) = ''MCP error '' @ error_code_string c @ '': '' @ m"

text \<open>
  The upstream service is a parameter: it maps a request to the parsed JSON body, or
  to the message of the error with which \<open>fetch\<close> or \<open>response.json()\<close> rejects.
\<close>

type_synonym upstream = "request \<Rightarrow> string + response"

text \<open>
  Every outbound call is appended to a log of requests, which the functions below
  thread through.
\<close>

definition fetch :: "upstream \<Rightarrow> request \<Rightarrow> request list \<Rightarrow> (exn + response) \<times> request list" where
  "fetch up req log =
     ((case up req of Inl m \<Rightarrow> Inl (Error m) | Inr r \<Rightarrow> Inr r), log @ [req])"

section \<open>JavaScript helpers\<close>

text \<open>
  A string-valued argument is truthy when it is present and not the empty string;
  \<open>truthy\<close> returns the string in that case.
\<close>

definition truthy :: "string option \<Rightarrow> string option" where
  "truthy v = (case v of None \<Rightarrow> None | Some s \<Rightarrow> if s = [] then None else Some s)"

text \<open>\<open>args.limit || d\<close>: an absent limit and the number 0 are both falsy.\<close>

definition limit_or :: "int \<Rightarrow> int option \<Rightarrow> int" where
  "limit_or d l = (case l of None \<Rightarrow> d | Some n \<Rightarrow> if n = 0 then d else n)"

text \<open>\<open>String.prototype.includes\<close>: \<open>str_includes t s\<close> is \<open>t.includes(s)\<close>.\<close>

fun str_includes :: "'a list \<Rightarrow> 'a list \<Rightarrow> bool" where
  "str_includes [] s = (s = [])"
| "str_includes (c # cs) s = (prefix s (c # cs) \<or> str_includes cs s)"

text \<open>\<open>Array.prototype.slice(0, n)\<close>: a negative end counts from the end of the array.\<close>

definition slice0 :: "int \<Rightarrow> 'a list \<Rightarrow> 'a list" where
  "slice0 n xs = (if n < 0 then take (nat (int (length xs) + n)) xs else take (nat n) xs)"

definition quote :: string where
  "quote = [CHR 0x27]"

section \<open>The Slack client\<close>

text \<open>\<open>getChannels(limit = 100, cursor)\<close>\<close>

definition getChannels ::
  "upstream \<Rightarrow> int option \<Rightarrow> string option \<Rightarrow> request list \<Rightarrow> (exn + response) \<times> request list" where
  "getChannels up lim cur log =
     fetch up (ConversationsList (min (case lim of None \<Rightarrow> 100 | Some l \<Rightarrow> l) 200) (truthy cur)) log"

definition postMessage ::
  "upstream \<Rightarrow> string \<Rightarrow> string option \<Rightarrow> request list \<Rightarrow> (exn + response) \<times> request list" where
  "postMessage up c t log = fetch up (ChatPostMessage c t) log"

definition postReply ::
  "upstream \<Rightarrow> string \<Rightarrow> string option \<Rightarrow> string option \<Rightarrow> request list
     \<Rightarrow> (exn + response) \<times> request list" where
  "postReply up c tts t log = fetch up (ChatPostReply c tts t) log"

text \<open>\<open>getChannelHistory(channel_id, limit = 10)\<close>\<close>

definition getChannelHistory ::
  "upstream \<Rightarrow> string \<Rightarrow> int option \<Rightarrow> request list \<Rightarrow> (exn + response) \<times> request list" where
  "getChannelHistory up c lim log =
     fetch up (ConversationsHistory c (case lim of None \<Rightarrow> 10 | Some l \<Rightarrow> l)) log"

definition getThreadReplies ::
  "upstream \<Rightarrow> string \<Rightarrow> string option \<Rightarrow> request list \<Rightarrow> (exn + response) \<times> request list" where
  "getThreadReplies up c tts log = fetch up (ConversationsReplies c tts) log"

text \<open>\<open>getUsers(limit = 100, cursor)\<close>\<close>

definition getUsers ::
  "upstream \<Rightarrow> int option \<Rightarrow> string option \<Rightarrow> request list \<Rightarrow> (exn + response) \<times> request list" where
  "getUsers up lim cur log =
     fetch up (UsersList (min (case lim of None \<Rightarrow> 100 | Some l \<Rightarrow> l) 200) (truthy cur)) log"

definition getUserProfile ::
  "upstream \<Rightarrow> string option \<Rightarrow> request list \<Rightarrow> (exn + response) \<times> request list" where
  "getUserProfile up u log = fetch up (UsersProfileGet u) log"

section \<open>Channel resolver\<close>

text \<open>
  \<open>resolveChannelId\<close>, \<open>getChannelMessages\<close> and \<open>getMentions\<close> read the same in
  \<open>src/unnamed/part_001\<close> and in \<open>src/build/index.js\<close>.
\<close>

text \<open>The predicate of \<open>channels.find\<close>: strict equality on either name field.\<close>

definition name_matches :: "string \<Rightarrow> channel \<Rightarrow> bool" where
  "name_matches n ch = (name ch = n \<or> name_normalized ch = n)"

definition not_found_message :: "string \<Rightarrow> string" where
  "not_found_message n = ''Channel with name '' @ quote @ n @ quote @ '' not found''"

definition resolveChannelId ::
  "upstream \<Rightarrow> string option \<Rightarrow> string option \<Rightarrow> request list \<Rightarrow> (exn + string) \<times> request list" where
  "resolveChannelId up cid cname log =
     (case truthy cid of
        Some c \<Rightarrow> (Inr c, log)
      | None \<Rightarrow>
          (case truthy cname of
             None \<Rightarrow> (Inl (Error ''Missing channel_id or channel_name''), log)
           | Some n \<Rightarrow>
               (case getChannels up (Some 200) None log of
                  (Inl e, log1) \<Rightarrow> (Inl e, log1)
                | (Inr channelsResp, log1) \<Rightarrow>
                    if \<not> ok channelsResp
                    then (Inl (Error ''Failed to fetch channels list''), log1)
                    else (case find (name_matches n) (channels channelsResp) of
                            None \<Rightarrow> (Inl (Error (not_found_message n)), log1)
                          | Some match \<Rightarrow> (Inr (ch_id match), log1)))))"

section \<open>Channel messages and mention scan\<close>

definition getChannelMessages ::
  "upstream \<Rightarrow> tool_args \<Rightarrow> request list \<Rightarrow> (exn + response) \<times> request list" where
  "getChannelMessages up args log =
     (case resolveChannelId up (channel_id args) (channel_name args) log of
        (Inl e, log1) \<Rightarrow> (Inl e, log1)
      | (Inr channelId, log1) \<Rightarrow>
          fetch up (ConversationsHistory channelId (limit_or 5 (limit args))) log1)"

text \<open>The object \<open>{ ok: true, messages: ... }\<close> that the mention scan returns.\<close>

record mentions_result =
  mentions_ok :: bool
  mentions :: "message list"

definition mentionTag :: "string \<Rightarrow> string" where
  "mentionTag userId = ''<@'' @ userId @ ''>''"

text \<open>The filter predicate \<open>msg.text && msg.text.includes(mentionTag)\<close>.\<close>

definition mentioned :: "string \<Rightarrow> message \<Rightarrow> bool" where
  "mentioned userId msg =
     (case truthy (msg_text msg) of None \<Rightarrow> False | Some t \<Rightarrow> str_includes t (mentionTag userId))"

text \<open>
  The first statement of \<open>getMentions\<close>:
  \<open>args.channel_id || (args.channel_name ? await resolveChannelId(...) : undefined)\<close>.
\<close>

definition mentions_channelId ::
  "upstream \<Rightarrow> tool_args \<Rightarrow> request list \<Rightarrow> (exn + string option) \<times> request list" where
  "mentions_channelId up args log =
     (case truthy (channel_id args) of
        Some c \<Rightarrow> (Inr (Some c), log)
      | None \<Rightarrow>
          (case truthy (channel_name args) of
             None \<Rightarrow> (Inr None, log)
           | Some n \<Rightarrow>
               (case resolveChannelId up None (Some n) log of
                  (Inl e, log1) \<Rightarrow> (Inl e, log1)
                | (Inr c, log1) \<Rightarrow> (Inr (Some c), log1))))"

text \<open>
  The loop over \<open>channelsResp.channels\<close>: one history request per channel, in order;
  a rejected fetch leaves the loop, a response that is not ok adds nothing.
\<close>

fun scan_channels ::
  "upstream \<Rightarrow> int \<Rightarrow> channel list \<Rightarrow> message list \<Rightarrow> request list
     \<Rightarrow> (exn + message list) \<times> request list" where
  "scan_channels up lim [] msgs log = (Inr msgs, log)"
| "scan_channels up lim (ch # chs) msgs log =
     (case fetch up (ConversationsHistory (ch_id ch) lim) log of
        (Inl e, log1) \<Rightarrow> (Inl e, log1)
      | (Inr data, log1) \<Rightarrow>
          scan_channels up lim chs (if ok data then msgs @ messages data else msgs) log1)"

text \<open>The \<open>if (channelId) ... else ...\<close> block that fills \<open>messages\<close>.\<close>

definition mentions_messages ::
  "upstream \<Rightarrow> tool_args \<Rightarrow> string option \<Rightarrow> request list
     \<Rightarrow> (exn + message list) \<times> request list" where
  "mentions_messages up args channelId log =
     (case truthy channelId of
        Some c \<Rightarrow>
          (case fetch up (ConversationsHistory c (limit_or 10 (limit args))) log of
             (Inl e, log1) \<Rightarrow> (Inl e, log1)
           | (Inr data, log1) \<Rightarrow> (Inr (if ok data then messages data else []), log1))
      | None \<Rightarrow>
          (case getChannels up (Some 200) None log of
             (Inl e, log1) \<Rightarrow> (Inl e, log1)
           | (Inr channelsResp, log1) \<Rightarrow>
               if \<not> ok channelsResp
               then (Inl (Error ''Failed to fetch channels list''), log1)
               else scan_channels up (limit_or 10 (limit args)) (channels channelsResp) [] log1))"

definition getMentions ::
  "upstream \<Rightarrow> tool_args \<Rightarrow> string \<Rightarrow> request list \<Rightarrow> (exn + mentions_result) \<times> request list" where
  "getMentions up args userId log =
     (case mentions_channelId up args log of
        (Inl e, log1) \<Rightarrow> (Inl e, log1)
      | (Inr channelId, log1) \<Rightarrow>
          (case mentions_messages up args channelId log1 of
             (Inl e, log2) \<Rightarrow> (Inl e, log2)
           | (Inr msgs, log2) \<Rightarrow>
               (Inr \<lparr>mentions_ok = True,
                     mentions = slice0 (limit_or 10 (limit args)) (filter (mentioned userId) msgs)\<rparr>,
                log2)))"

section \<open>Tool dispatch: the \<open>main()\<close> server\<close>

text \<open>
  The repository holds two servers over the same helper functions: the one that
  \<open>main()\<close> sets up (\<open>src/unnamed/part_001\<close>), modelled in this section, and the
  class \<open>SlackMcpServer\<close> (\<open>src/build/index.js\<close>), modelled in the next.

  An inbound tool call: the operation name and the argument object, which the protocol
  allows to be absent. The text block of a tool response is either a serialised upstream
  response, the serialised result of the mention scan, the serialised object
  \<open>{ error: message }\<close>, or plain text.
\<close>

record tool_request =
  tool_name :: string
  arguments :: "tool_args option"

datatype payload = Json response | JsonMentions mentions_result | JsonError string | Text string

record tool_result =
  content :: payload
  isError :: bool

definition json_content :: "response \<Rightarrow> tool_result" where
  "json_content r = \<lparr>content = Json r, isError = False\<rparr>"

text \<open>
  The channel resolution that the \<open>send_message\<close>, \<open>get_channel_history\<close> and
  \<open>get_thread_replies\<close> cases of the \<open>main()\<close> server each write out inline, up to
  the test \<open>if (!channelId)\<close>.
\<close>

definition inline_channelId ::
  "upstream \<Rightarrow> tool_args \<Rightarrow> request list \<Rightarrow> (exn + string) \<times> request list" where
  "inline_channelId up args log =
     (case (case truthy (channel_id args) of
              Some c \<Rightarrow> (Inr (Some c), log)
            | None \<Rightarrow>
                (case truthy (channel_name args) of
                   None \<Rightarrow> (Inr None, log)
                 | Some n \<Rightarrow>
                     (case getChannels up (Some 200) None log of
                        (Inl e, log1) \<Rightarrow> (Inl e, log1)
                      | (Inr channelsResp, log1) \<Rightarrow>
                          if \<not> ok channelsResp
                          then (Inl (Error ''Failed to fetch channels list''), log1)
                          else (case find (name_matches n) (channels channelsResp) of
                                  None \<Rightarrow> (Inl (Error (not_found_message n)), log1)
                                | Some match \<Rightarrow> (Inr (Some (ch_id match)), log1))))) of
        (Inl e, log1) \<Rightarrow> (Inl e, log1)
      | (Inr channelId, log1) \<Rightarrow>
          (case truthy channelId of
             None \<Rightarrow> (Inl (Error ''Missing required argument: channel_id or channel_name''), log1)
           | Some c \<Rightarrow> (Inr c, log1)))"

text \<open>Wrapping an awaited client call into the text block.\<close>

definition respond_json ::
  "(exn + response) \<times> request list \<Rightarrow> (exn + tool_result) \<times> request list" where
  "respond_json r =
     (case r of (Inl e, log1) \<Rightarrow> (Inl e, log1) | (Inr resp, log1) \<Rightarrow> (Inr (json_content resp), log1))"

definition main_send_message ::
  "upstream \<Rightarrow> tool_args \<Rightarrow> request list \<Rightarrow> (exn + tool_result) \<times> request list" where
  "main_send_message up args log =
     (case inline_channelId up args log of
        (Inl e, log1) \<Rightarrow> (Inl e, log1)
      | (Inr channelId, log1) \<Rightarrow>
          (case truthy (arg_text args) of
             None \<Rightarrow> (Inl (Error ''Missing required argument: text''), log1)
           | Some t \<Rightarrow> respond_json (postMessage up channelId (Some t) log1)))"

definition main_reply_to_thread ::
  "upstream \<Rightarrow> tool_args \<Rightarrow> request list \<Rightarrow> (exn + tool_result) \<times> request list" where
  "main_reply_to_thread up args log =
     (case (truthy (channel_id args), truthy (thread_ts args), truthy (arg_text args)) of
        (Some c, Some tts, Some t) \<Rightarrow> respond_json (postReply up c (Some tts) (Some t) log)
      | _ \<Rightarrow> (Inl (Error ''Missing required arguments: channel_id, thread_ts, and text''), log))"

definition main_get_channel_history ::
  "upstream \<Rightarrow> tool_args \<Rightarrow> request list \<Rightarrow> (exn + tool_result) \<times> request list" where
  "main_get_channel_history up args log =
     (case inline_channelId up args log of
        (Inl e, log1) \<Rightarrow> (Inl e, log1)
      | (Inr channelId, log1) \<Rightarrow> respond_json (getChannelHistory up channelId (limit args) log1))"

definition main_get_thread_replies ::
  "upstream \<Rightarrow> tool_args \<Rightarrow> request list \<Rightarrow> (exn + tool_result) \<times> request list" where
  "main_get_thread_replies up args log =
     (case inline_channelId up args log of
        (Inl e, log1) \<Rightarrow> (Inl e, log1)
      | (Inr channelId, log1) \<Rightarrow>
          (case truthy (thread_ts args) of
             None \<Rightarrow> (Inl (Error ''Missing required argument: thread_ts''), log1)
           | Some tts \<Rightarrow> respond_json (getThreadReplies up channelId (Some tts) log1)))"

definition main_get_user_profile ::
  "upstream \<Rightarrow> tool_args \<Rightarrow> request list \<Rightarrow> (exn + tool_result) \<times> request list" where
  "main_get_user_profile up args log =
     (case truthy (user_id args) of
        None \<Rightarrow> (Inl (Error ''Missing required argument: user_id''), log)
      | Some u \<Rightarrow> respond_json (getUserProfile up (Some u) log))"

definition main_get_mentions ::
  "upstream \<Rightarrow> tool_args \<Rightarrow> request list \<Rightarrow> (exn + tool_result) \<times> request list" where
  "main_get_mentions up args log =
     (case getMentions up args ''PLACEHOLDER_USER_ID'' log of
        (Inl e, log1) \<Rightarrow> (Inl e, log1)
      | (Inr r, log1) \<Rightarrow> (Inr \<lparr>content = JsonMentions r, isError = False\<rparr>, log1))"

text \<open>The body of the \<open>try\<close> block: the argument check and the \<open>switch\<close>.\<close>

definition main_switch ::
  "upstream \<Rightarrow> tool_request \<Rightarrow> request list \<Rightarrow> (exn + tool_result) \<times> request list" where
  "main_switch up req log =
     (case arguments req of
        None \<Rightarrow> (Inl (Error ''No arguments provided''), log)
      | Some args \<Rightarrow>
          if tool_name req = ''channels_list_on_slack''
            then respond_json (getChannels up (limit args) (cursor args) log)
          else if tool_name req = ''send_message_on_slack'' then main_send_message up args log
          else if tool_name req = ''reply_to_thread_on_slack'' then main_reply_to_thread up args log
          else if tool_name req = ''get_channel_history_on_slack''
            then main_get_channel_history up args log
          else if tool_name req = ''get_thread_replies_on_slack''
            then main_get_thread_replies up args log
          else if tool_name req = ''get_users_on_slack''
            then respond_json (getUsers up (limit args) (cursor args) log)
          else if tool_name req = ''get_user_profile_on_slack'' then main_get_user_profile up args log
          else if tool_name req = ''get_channel_messages_on_slack''
            then respond_json (getChannelMessages up args log)
          else if tool_name req = ''get_mentions_on_slack'' then main_get_mentions up args log
          else (Inl (Error (''Unknown tool: '' @ tool_name req)), log))"

text \<open>
  The request handler of the \<open>main()\<close> server: the \<open>catch\<close> clause turns whatever the
  \<open>try\<close> block throws into a text block. \<open>Inl\<close> would be an error leaving the handler.
\<close>

definition main_CallTool ::
  "upstream \<Rightarrow> tool_request \<Rightarrow> request list \<Rightarrow> (exn + tool_result) \<times> request list" where
  "main_CallTool up req log =
     (case main_switch up req log of
        (Inl error, log1) \<Rightarrow> (Inr \<lparr>content = JsonError (error_message error), isError = False\<rparr>, log1)
      | (Inr r, log1) \<Rightarrow> (Inr r, log1))"

section \<open>Tool dispatch: the \<open>SlackMcpServer\<close> class\<close>

datatype slack_client = SlackClient string

record server =
  slackClient :: "slack_client option"
  slackBotUserId :: "string option"

definition initializeSlackClient :: "string option \<Rightarrow> slack_client option" where
  "initializeSlackClient botToken =
     (case truthy botToken of None \<Rightarrow> None | Some t \<Rightarrow> Some (SlackClient t))"

definition fetchBotUserId :: "upstream \<Rightarrow> server \<Rightarrow> request list \<Rightarrow> server \<times> request list" where
  "fetchBotUserId up s log =
     (case slackClient s of
        None \<Rightarrow> (s, log)
      | Some client \<Rightarrow>
          (case fetch up AuthTest log of
             (Inl error, log1) \<Rightarrow> (s, log1)
           | (Inr data, log1) \<Rightarrow>
               (case (if ok data then truthy (resp_user_id data) else None) of
                  Some u \<Rightarrow> (s\<lparr>slackBotUserId := Some u\<rparr>, log1)
                | None \<Rightarrow> (s, log1))))"

definition text_error :: "string \<Rightarrow> tool_result" where
  "text_error t = \<lparr>content = Text t, isError = True\<rparr>"

text \<open>The \<open>try { ... } catch (error) { ... }\<close> frame that every handler method has.\<close>

definition catching ::
  "string \<Rightarrow> (exn + tool_result) \<times> request list \<Rightarrow> tool_result \<times> request list" where
  "catching label r =
     (case r of
        (Inl error, log1) \<Rightarrow> (text_error (label @ error_message error), log1)
      | (Inr res, log1) \<Rightarrow> (res, log1))"

text \<open>Reading a property of an absent argument object throws a \<open>TypeError\<close>.\<close>

definition undefined_read :: "string \<Rightarrow> exn" where
  "undefined_read p =
     Error (''Cannot read properties of undefined (reading '' @ quote @ p @ quote @ '')'')"

text \<open>
  The channel resolution at the head of \<open>handlePostMessage\<close>, \<open>handleReplyToThread\<close>,
  \<open>handleGetChannelHistory\<close> and \<open>handleGetThreadReplies\<close>; \<open>Inr None\<close> is the branch
  that returns the text \<open>Missing channel_id or channel_name.\<close>
\<close>

definition handler_channelId ::
  "upstream \<Rightarrow> tool_args \<Rightarrow> request list \<Rightarrow> (exn + string option) \<times> request list" where
  "handler_channelId up args log =
     (case truthy (channel_id args) of
        Some c \<Rightarrow> (Inr (Some c), log)
      | None \<Rightarrow>
          (case truthy (channel_name args) of
             None \<Rightarrow> (Inr None, log)
           | Some n \<Rightarrow>
               (case resolveChannelId up None (Some n) log of
                  (Inl e, log1) \<Rightarrow> (Inl e, log1)
                | (Inr c, log1) \<Rightarrow> (Inr (truthy (Some c)), log1))))"

text \<open>
  A handler body that resolves the channel and then makes one client call with it.
\<close>

definition with_channel ::
  "upstream \<Rightarrow> tool_args option \<Rightarrow> (tool_args \<Rightarrow> string \<Rightarrow> request list \<Rightarrow> (exn + response) \<times> request list)
     \<Rightarrow> request list \<Rightarrow> (exn + tool_result) \<times> request list" where
  "with_channel up args call log =
     (case args of
        None \<Rightarrow> (Inl (undefined_read ''channel_id''), log)
      | Some a \<Rightarrow>
          (case handler_channelId up a log of
             (Inl e, log1) \<Rightarrow> (Inl e, log1)
           | (Inr None, log1) \<Rightarrow> (Inr (text_error ''Missing channel_id or channel_name.''), log1)
           | (Inr (Some channelId), log1) \<Rightarrow> respond_json (call a channelId log1)))"

definition not_initialized :: tool_result where
  "not_initialized = text_error ''Slack client not initialized.''"

text \<open>
  Each handler method is the test of \<open>this.slackClient\<close> followed by a \<open>try\<close> block
  and its \<open>catch\<close> clause. The \<open>try\<close> block is defined first, under the name of the
  method with the suffix \<open>_try\<close>.
\<close>

definition handleListChannels_try ::
  "upstream \<Rightarrow> tool_args option \<Rightarrow> request list \<Rightarrow> (exn + tool_result) \<times> request list" where
  "handleListChannels_try up args log =
     (case args of
        None \<Rightarrow> (Inl (undefined_read ''limit''), log)
      | Some a \<Rightarrow> respond_json (getChannels up (limit a) (cursor a) log))"

definition handleListChannels ::
  "upstream \<Rightarrow> server \<Rightarrow> tool_args option \<Rightarrow> request list \<Rightarrow> tool_result \<times> request list" where
  "handleListChannels up s args log =
     (case slackClient s of
        None \<Rightarrow> (not_initialized, log)
      | Some client \<Rightarrow> catching ''Error listing channels: '' (handleListChannels_try up args log))"

definition handlePostMessage_try ::
  "upstream \<Rightarrow> tool_args option \<Rightarrow> request list \<Rightarrow> (exn + tool_result) \<times> request list" where
  "handlePostMessage_try up args log = with_channel up args (\<lambda>a c. postMessage up c (arg_text a)) log"

definition handlePostMessage ::
  "upstream \<Rightarrow> server \<Rightarrow> tool_args option \<Rightarrow> request list \<Rightarrow> tool_result \<times> request list" where
  "handlePostMessage up s args log =
     (case slackClient s of
        None \<Rightarrow> (not_initialized, log)
      | Some client \<Rightarrow> catching ''Error sending message: '' (handlePostMessage_try up args log))"

definition handleReplyToThread_try ::
  "upstream \<Rightarrow> tool_args option \<Rightarrow> request list \<Rightarrow> (exn + tool_result) \<times> request list" where
  "handleReplyToThread_try up args log = with_channel up args (\<lambda>a c. postReply up c (thread_ts a) (arg_text a)) log"

definition handleReplyToThread ::
  "upstream \<Rightarrow> server \<Rightarrow> tool_args option \<Rightarrow> request list \<Rightarrow> tool_result \<times> request list" where
  "handleReplyToThread up s args log =
     (case slackClient s of
        None \<Rightarrow> (not_initialized, log)
      | Some client \<Rightarrow> catching ''Error replying to thread: '' (handleReplyToThread_try up args log))"

definition handleGetChannelHistory_try ::
  "upstream \<Rightarrow> tool_args option \<Rightarrow> request list \<Rightarrow> (exn + tool_result) \<times> request list" where
  "handleGetChannelHistory_try up args log = with_channel up args (\<lambda>a c. getChannelHistory up c (limit a)) log"

definition handleGetChannelHistory ::
  "upstream \<Rightarrow> server \<Rightarrow> tool_args option \<Rightarrow> request list \<Rightarrow> tool_result \<times> request list" where
  "handleGetChannelHistory up s args log =
     (case slackClient s of
        None \<Rightarrow> (not_initialized, log)
      | Some client \<Rightarrow> catching ''Error getting channel history: '' (handleGetChannelHistory_try up args log))"

definition handleGetThreadReplies_try ::
  "upstream \<Rightarrow> tool_args option \<Rightarrow> request list \<Rightarrow> (exn + tool_result) \<times> request list" where
  "handleGetThreadReplies_try up args log = with_channel up args (\<lambda>a c. getThreadReplies up c (thread_ts a)) log"

definition handleGetThreadReplies ::
  "upstream \<Rightarrow> server \<Rightarrow> tool_args option \<Rightarrow> request list \<Rightarrow> tool_result \<times> request list" where
  "handleGetThreadReplies up s args log =
     (case slackClient s of
        None \<Rightarrow> (not_initialized, log)
      | Some client \<Rightarrow> catching ''Error getting thread replies: '' (handleGetThreadReplies_try up args log))"

definition handleGetUsers_try ::
  "upstream \<Rightarrow> tool_args option \<Rightarrow> request list \<Rightarrow> (exn + tool_result) \<times> request list" where
  "handleGetUsers_try up args log =
     (case args of
        None \<Rightarrow> (Inl (undefined_read ''limit''), log)
      | Some a \<Rightarrow> respond_json (getUsers up (limit a) (cursor a) log))"

definition handleGetUsers ::
  "upstream \<Rightarrow> server \<Rightarrow> tool_args option \<Rightarrow> request list \<Rightarrow> tool_result \<times> request list" where
  "handleGetUsers up s args log =
     (case slackClient s of
        None \<Rightarrow> (not_initialized, log)
      | Some client \<Rightarrow> catching ''Error getting users: '' (handleGetUsers_try up args log))"

definition handleGetUserProfile_try ::
  "upstream \<Rightarrow> tool_args option \<Rightarrow> request list \<Rightarrow> (exn + tool_result) \<times> request list" where
  "handleGetUserProfile_try up args log =
     (case args of
        None \<Rightarrow> (Inl (undefined_read ''user_id''), log)
      | Some a \<Rightarrow> respond_json (getUserProfile up (user_id a) log))"

definition handleGetUserProfile ::
  "upstream \<Rightarrow> server \<Rightarrow> tool_args option \<Rightarrow> request list \<Rightarrow> tool_result \<times> request list" where
  "handleGetUserProfile up s args log =
     (case slackClient s of
        None \<Rightarrow> (not_initialized, log)
      | Some client \<Rightarrow> catching ''Error getting user profile: '' (handleGetUserProfile_try up args log))"

definition handleGetChannelMessages_try ::
  "upstream \<Rightarrow> tool_args option \<Rightarrow> request list \<Rightarrow> (exn + tool_result) \<times> request list" where
  "handleGetChannelMessages_try up args log =
     (case args of
        None \<Rightarrow> (Inl (undefined_read ''channel_id''), log)
      | Some a \<Rightarrow> respond_json (getChannelMessages up a log))"

definition handleGetChannelMessages ::
  "upstream \<Rightarrow> server \<Rightarrow> tool_args option \<Rightarrow> request list \<Rightarrow> tool_result \<times> request list" where
  "handleGetChannelMessages up s args log =
     (case slackClient s of
        None \<Rightarrow> (not_initialized, log)
      | Some client \<Rightarrow> catching ''Error getting channel messages: '' (handleGetChannelMessages_try up args log))"

definition handleGetMentions_try ::
  "upstream \<Rightarrow> tool_args option \<Rightarrow> string \<Rightarrow> request list
     \<Rightarrow> (exn + tool_result) \<times> request list" where
  "handleGetMentions_try up args userId log =
     (case args of
        None \<Rightarrow> (Inl (undefined_read ''channel_id''), log)
      | Some a \<Rightarrow>
          (case getMentions up a userId log of
             (Inl e, log1) \<Rightarrow> (Inl e, log1)
           | (Inr r, log1) \<Rightarrow> (Inr \<lparr>content = JsonMentions r, isError = False\<rparr>, log1)))"

definition handleGetMentions ::
  "upstream \<Rightarrow> server \<Rightarrow> tool_args option \<Rightarrow> request list
     \<Rightarrow> tool_result \<times> server \<times> request list" where
  "handleGetMentions up s args log =
     (case slackClient s of
        None \<Rightarrow> (not_initialized, s, log)
      | Some client \<Rightarrow>
          (case (case truthy (slackBotUserId s) of
                   Some u \<Rightarrow> (s, log)
                 | None \<Rightarrow> fetchBotUserId up s log) of
             (s1, log1) \<Rightarrow>
               (case truthy (slackBotUserId s1) of
                  None \<Rightarrow> (text_error ''Slack Bot User ID not available.'', s1, log1)
                | Some userId \<Rightarrow>
                    (case catching ''Error getting mentions: ''
                            (handleGetMentions_try up args userId log1) of
                       (res, log2) \<Rightarrow> (res, s1, log2)))))"

text \<open>\<open>args && "key" in args\<close>\<close>

definition has_key :: "tool_args option \<Rightarrow> (tool_args \<Rightarrow> 'a option) \<Rightarrow> bool" where
  "has_key args key = (case args of None \<Rightarrow> False | Some a \<Rightarrow> key a \<noteq> None)"

definition handled ::
  "server \<Rightarrow> tool_result \<times> request list \<Rightarrow> (exn + tool_result) \<times> server \<times> request list" where
  "handled s r = (case r of (res, log1) \<Rightarrow> (Inr res, s, log1))"

text \<open>
  The request handler that \<open>setupToolHandlers\<close> registers. It has no \<open>try\<close> of its
  own: what it throws leaves the handler (\<open>Inl\<close>).
\<close>

definition server_CallTool ::
  "upstream \<Rightarrow> server \<Rightarrow> tool_request \<Rightarrow> request list
     \<Rightarrow> (exn + tool_result) \<times> server \<times> request list" where
  "server_CallTool up s req log =
     (let args = arguments req in
      if tool_name req = ''channels_list_on_slack'' then handled s (handleListChannels up s args log)
      else if tool_name req = ''send_message_on_slack'' then handled s (handlePostMessage up s args log)
      else if tool_name req = ''reply_to_thread_on_slack'' then
        (if has_key args thread_ts \<and> has_key args arg_text
         then handled s (handleReplyToThread up s args log)
         else (Inl (McpError InvalidRequest
                 ''Missing required arguments: thread_ts and text for reply_to_thread_on_slack''),
               s, log))
      else if tool_name req = ''get_channel_history_on_slack''
        then handled s (handleGetChannelHistory up s args log)
      else if tool_name req = ''get_thread_replies_on_slack'' then
        (if has_key args thread_ts
         then handled s (handleGetThreadReplies up s args log)
         else (Inl (McpError InvalidRequest
                 ''Missing required argument: thread_ts for get_thread_replies_on_slack''),
               s, log))
      else if tool_name req = ''get_users_on_slack'' then handled s (handleGetUsers up s args log)
      else if tool_name req = ''get_user_profile_on_slack'' then
        (if has_key args user_id
         then handled s (handleGetUserProfile up s args log)
         else (Inl (McpError InvalidRequest
                 ''Missing required argument: user_id for get_user_profile_on_slack''),
               s, log))
      else if tool_name req = ''get_channel_messages_on_slack''
        then handled s (handleGetChannelMessages up s args log)
      else if tool_name req = ''get_mentions_on_slack'' then
        (case handleGetMentions up s args log of (res, s1, log1) \<Rightarrow> (Inr res, s1, log1))
      else (Inl (McpError MethodNotFound (''Unknown tool: '' @ tool_name req)), s, log))"

text \<open>
  \<open>run()\<close> up to the point where the transport is connected: the client is built from
  the token of the environment and the bot identity is fetched once. Without a token the
  server never connects (\<open>None\<close>).
\<close>

definition run :: "upstream \<Rightarrow> string option \<Rightarrow> request list \<Rightarrow> (server \<times> request list) option" where
  "run up botToken log =
     (case initializeSlackClient botToken of
        None \<Rightarrow> None
      | Some client \<Rightarrow>
          Some (fetchBotUserId up \<lparr>slackClient = Some client, slackBotUserId = None\<rparr> log))"

text \<open>
  The connected server takes inbound tool calls one at a time; the state and the
  request log pass from each call to the next.
\<close>

fun serve ::
  "upstream \<Rightarrow> server \<Rightarrow> tool_request list \<Rightarrow> request list \<Rightarrow> server \<times> request list" where
  "serve up s [] log = (s, log)"
| "serve up s (req # reqs) log =
     (case server_CallTool up s req log of (res, s1, log1) \<Rightarrow> serve up s1 reqs log1)"


section \<open>Specification-side notions and fixtures\<close>

text \<open>
  What the upstream contributes for one channel of an unscoped scan: the messages of
  its history response for that channel, none when the response is not ok.
\<close>

definition upstream_history :: "upstream \<Rightarrow> int \<Rightarrow> channel \<Rightarrow> message list" where
  "upstream_history up lim ch =
     (case up (ConversationsHistory (ch_id ch) lim) of
        Inl m \<Rightarrow> [] | Inr data \<Rightarrow> if ok data then messages data else [])"

text \<open>
  A fixture upstream with the two channels \<open>general\<close> and \<open>random\<close> and three
  messages in each, every one mentioning \<open>U123\<close>.
\<close>

definition general :: channel where
  "general = \<lparr>ch_id = ''C1'', name = ''general'', name_normalized = ''general''\<rparr>"

definition random :: channel where
  "random = \<lparr>ch_id = ''C2'', name = ''Random'', name_normalized = ''random''\<rparr>"

definition msg :: "string \<Rightarrow> string \<Rightarrow> message" where
  "msg t s = \<lparr>msg_text = Some t, ts = s\<rparr>"

definition empty_response :: response where
  "empty_response = \<lparr>ok = True, channels = [], messages = [], resp_user_id = None\<rparr>"

fun fixture :: upstream where
  "fixture (ConversationsList n c) = Inr (empty_response\<lparr>channels := [general, random]\<rparr>)"
| "fixture (ConversationsHistory c n) =
     (if c = ''C1'' then
        Inr (empty_response\<lparr>messages :=
          [msg ''g3 <@U123>'' ''3.0'', msg ''g2 <@U123>'' ''2.0'', msg ''g1 <@U123>'' ''1.0'']\<rparr>)
      else if c = ''C2'' then
        Inr (empty_response\<lparr>messages :=
          [msg ''r3 <@U123>'' ''3.5'', msg ''r2 <@U123>'' ''2.5'', msg ''r1 <@U123>'' ''1.5'']\<rparr>)
      else Inr (empty_response\<lparr>ok := False\<rparr>))"
| "fixture AuthTest = Inr (empty_response\<lparr>resp_user_id := Some ''U123''\<rparr>)"
| "fixture r = Inr empty_response"

definition no_args :: tool_args where
  "no_args = \<lparr>channel_id = None, channel_name = None, arg_text = None, thread_ts = None,
              user_id = None, limit = None, cursor = None\<rparr>"

text \<open>
  Two variations of the fixture. In \<open>not_member\<close> the history of \<open>general\<close> is
  answered by a response that is not ok (as the upstream does for a channel the bot has
  not joined). In \<open>rejecting\<close> the history fetch of \<open>random\<close> rejects.
\<close>

fun not_member :: upstream where
  "not_member (ConversationsHistory c n) =
     (if c = ''C1'' then Inr (empty_response\<lparr>ok := False\<rparr>) else fixture (ConversationsHistory c n))"
| "not_member r = fixture r"

fun rejecting :: upstream where
  "rejecting (ConversationsHistory c n) =
     (if c = ''C2'' then Inl ''fetch failed'' else fixture (ConversationsHistory c n))"
| "rejecting r = fixture r"


text \<open>A connected server that has obtained its bot identity.\<close>


definition ready :: server where
  "ready = \<lparr>slackClient = Some (SlackClient ''xoxb-token''), slackBotUserId = Some ''U123''\<rparr>"

section \<open>Properties of the helpers\<close>

lemma truthy_Some_iff: "truthy v = Some s \<longleftrightarrow> v = Some s \<and> s \<noteq> []"
  by (auto simp: truthy_def split: option.splits)

lemma truthy_None_iff: "truthy v = None \<longleftrightarrow> v = None \<or> v = Some []"
  by (auto simp: truthy_def split: option.splits)

text \<open>The executable substring test agrees with the usual characterisation.\<close>

lemma str_includes_iff: "str_includes t s \<longleftrightarrow> (\<exists>ps ss. t = ps @ s @ ss)"
proof (induction t)
  case Nil
  then show ?case by auto
next
  case (Cons c cs)
  have "(\<exists>ps ss. c # cs = ps @ s @ ss) \<longleftrightarrow> prefix s (c # cs) \<or> (\<exists>ps ss. cs = ps @ s @ ss)"
    using sublist_Cons_right[of s c cs] by (simp add: sublist_def)
  with Cons show ?case by simp
qed

section \<open>Channel resolver: resolution by identifier\<close>

text \<open>
  Claim C7. When the identifier argument is present (a non-empty string), the resolver
  returns it unchanged and the request log is unchanged, whatever the name argument
  and whatever the upstream would answer.
\<close>

theorem resolveChannelId_by_id:
  "cid = Some c \<Longrightarrow> c \<noteq> [] \<Longrightarrow> resolveChannelId up cid cname log = (Inr c, log)"
  by (simp add: resolveChannelId_def truthy_def)

theorem resolveChannelId_by_id_witness:
  "resolveChannelId (\<lambda>r. Inl ''down'') (Some ''C42'') (Some ''general'') [] = (Inr ''C42'', [])"
  using resolveChannelId_by_id [of "Some ''C42''" "''C42''" "\<lambda>r. Inl ''down''" "Some ''general''" "[]"]
  by simp

section \<open>Mention filter\<close>

text \<open>
  Claim C2. A message with text \<open>t\<close> passes the mention filter for identity \<open>u\<close> exactly
  when \<open>t\<close> contains the delimited marker \<open><@u>\<close> as a contiguous substring. A text
  with the marker of \<open>U123\<close> is kept; a text with only the marker of \<open>U1234\<close> is dropped.
\<close>

theorem mentioned_iff_marker:
  "(mentioned u \<lparr>msg_text = Some t, ts = s\<rparr> \<longleftrightarrow> (\<exists>ps ss. t = ps @ ''<@'' @ u @ ''>'' @ ss))
   \<and> mentioned ''U123'' \<lparr>msg_text = Some ''ping <@U123> please'', ts = s\<rparr>
   \<and> \<not> mentioned ''U123'' \<lparr>msg_text = Some ''ping <@U1234> please'', ts = s\<rparr>"
proof (intro conjI)
  show "mentioned u \<lparr>msg_text = Some t, ts = s\<rparr> \<longleftrightarrow> (\<exists>ps ss. t = ps @ ''<@'' @ u @ ''>'' @ ss)"
    by (cases "t = []") (auto simp: mentioned_def truthy_def str_includes_iff mentionTag_def)
  show "mentioned ''U123'' \<lparr>msg_text = Some ''ping <@U123> please'', ts = s\<rparr>"
    by (simp add: mentioned_def truthy_def mentionTag_def)
  show "\<not> mentioned ''U123'' \<lparr>msg_text = Some ''ping <@U1234> please'', ts = s\<rparr>"
    by (simp add: mentioned_def truthy_def mentionTag_def)
qed

section \<open>Channel resolver: resolution by name\<close>

lemma getChannels_200: "getChannels up (Some 200) None log = fetch up (ConversationsList 200 None) log"
  by (simp add: getChannels_def truthy_def)

text \<open>
  Claim C1. With no identifier (absent or empty) and a name present, the resolver issues
  exactly one list request, with page size 200 and no cursor. When that request is
  answered by an ok response, it returns the identifier of the first channel of the
  response whose \<open>name\<close> or \<open>name_normalized\<close> equals the given name (equality of
  strings, no normalisation of the given name); when no channel of the response
  matches, it fails with the error whose message quotes the requested name.
\<close>

theorem resolveChannelId_by_name:
  assumes "cid = None \<or> cid = Some []" and "cname = Some n" and "n \<noteq> []"
  shows "snd (resolveChannelId up cid cname log) = log @ [ConversationsList 200 None]
    \<and> (\<forall>resp k. up (ConversationsList 200 None) = Inr resp \<and> ok resp
             \<and> k < length (channels resp) \<and> name_matches n (channels resp ! k)
             \<and> (\<forall>j<k. \<not> name_matches n (channels resp ! j))
          \<longrightarrow> fst (resolveChannelId up cid cname log) = Inr (ch_id (channels resp ! k)))
    \<and> (\<forall>resp. up (ConversationsList 200 None) = Inr resp \<and> ok resp
             \<and> (\<forall>ch \<in> set (channels resp). \<not> name_matches n ch)
          \<longrightarrow> fst (resolveChannelId up cid cname log) = Inl (Error (not_found_message n)))
    \<and> (\<forall>ch. name_matches n ch \<longleftrightarrow> name ch = n \<or> name_normalized ch = n)
    \<and> not_found_message n = ''Channel with name '' @ [CHR 0x27] @ n @ [CHR 0x27] @ '' not found''"
proof -
  have t: "truthy cid = None" "truthy cname = Some n"
    using assms by (auto simp: truthy_def)
  have l: "snd (resolveChannelId up cid cname log) = log @ [ConversationsList 200 None]"
    by (simp add: resolveChannelId_def t getChannels_200 fetch_def split: option.splits sum.splits)
  have r: "resolveChannelId up cid cname log =
      (case find (name_matches n) (channels resp) of
         None \<Rightarrow> Inl (Error (not_found_message n))
       | Some match \<Rightarrow> Inr (ch_id match),
       log @ [ConversationsList 200 None])"
    if "up (ConversationsList 200 None) = Inr resp" "ok resp" for resp
    using that by (simp add: resolveChannelId_def t getChannels_200 fetch_def split: option.splits)
  have first: "fst (resolveChannelId up cid cname log) = Inr (ch_id (channels resp ! k))"
    if "up (ConversationsList 200 None) = Inr resp" "ok resp"
       "k < length (channels resp)" "name_matches n (channels resp ! k)"
       "\<forall>j<k. \<not> name_matches n (channels resp ! j)" for resp k
  proof -
    have "find (name_matches n) (channels resp) = Some (channels resp ! k)"
      using that(3,4,5) by (auto simp: find_Some_iff)
    then show ?thesis by (simp add: r[OF that(1,2)])
  qed
  have none: "fst (resolveChannelId up cid cname log) = Inl (Error (not_found_message n))"
    if "up (ConversationsList 200 None) = Inr resp" "ok resp"
       "\<forall>ch \<in> set (channels resp). \<not> name_matches n ch" for resp
  proof -
    have "find (name_matches n) (channels resp) = None"
      using that(3) by (simp add: find_None_iff)
    then show ?thesis by (simp add: r[OF that(1,2)])
  qed
  have m: "\<forall>ch. name_matches n ch \<longleftrightarrow> name ch = n \<or> name_normalized ch = n"
    by (simp add: name_matches_def)
  have q: "not_found_message n = ''Channel with name '' @ [CHR 0x27] @ n @ [CHR 0x27] @ '' not found''"
    by (simp add: not_found_message_def quote_def)
  from l first none m q show ?thesis by blast
qed

theorem resolveChannelId_by_name_witness:
  "fst (resolveChannelId fixture None (Some ''random'') []) = Inr ''C2''
   \<and> snd (resolveChannelId fixture None (Some ''random'') []) = [ConversationsList 200 None]
   \<and> fst (resolveChannelId fixture (Some []) (Some ''RANDOM'') [])
       = Inl (Error (''Channel with name '' @ [CHR 0x27] @ ''RANDOM'' @ [CHR 0x27] @ '' not found''))"
proof -
  have k: "fixture (ConversationsList 200 None) = Inr (empty_response\<lparr>channels := [general, random]\<rparr>)
       \<and> ok (empty_response\<lparr>channels := [general, random]\<rparr>)
       \<and> (1::nat) < length (channels (empty_response\<lparr>channels := [general, random]\<rparr>))
       \<and> name_matches ''random'' (channels (empty_response\<lparr>channels := [general, random]\<rparr>) ! 1)
       \<and> (\<forall>j<1. \<not> name_matches ''random'' (channels (empty_response\<lparr>channels := [general, random]\<rparr>) ! j))"
    by (simp add: name_matches_def general_def random_def empty_response_def)
  have n: "fixture (ConversationsList 200 None) = Inr (empty_response\<lparr>channels := [general, random]\<rparr>)
       \<and> ok (empty_response\<lparr>channels := [general, random]\<rparr>)
       \<and> (\<forall>ch \<in> set (channels (empty_response\<lparr>channels := [general, random]\<rparr>)).
             \<not> name_matches ''RANDOM'' ch)"
    by (simp add: name_matches_def general_def random_def empty_response_def)
  have 1: "fst (resolveChannelId fixture None (Some ''random'') [])
             = Inr (ch_id (channels (empty_response\<lparr>channels := [general, random]\<rparr>) ! 1))"
    and 2: "snd (resolveChannelId fixture None (Some ''random'') []) = [ConversationsList 200 None]"
    using resolveChannelId_by_name [of None "Some ''random''" "''random''" fixture "[]"] k
    by (blast, simp)
  have 3: "fst (resolveChannelId fixture (Some []) (Some ''RANDOM'') [])
             = Inl (Error (not_found_message ''RANDOM''))"
    using resolveChannelId_by_name [of "Some []" "Some ''RANDOM''" "''RANDOM''" fixture "[]"] n
    by blast
  from 1 2 3 show ?thesis
    by (simp add: random_def not_found_message_def quote_def)
qed

section \<open>Mention scan without a channel scope\<close>

lemma scan_channels_ok:
  "\<forall>ch \<in> set chs. \<exists>data. up (ConversationsHistory (ch_id ch) lim) = Inr data \<Longrightarrow>
   scan_channels up lim chs msgs log =
     (Inr (msgs @ concat (map (upstream_history up lim) chs)),
      log @ map (\<lambda>ch. ConversationsHistory (ch_id ch) lim) chs)"
proof (induction chs arbitrary: msgs log)
  case Nil
  then show ?case by simp
next
  case (Cons ch chs)
  then show ?case
    by (auto simp: fetch_def upstream_history_def split: sum.splits)
qed

lemma scan_channels_fault:
  "\<exists>ch \<in> set chs. isl (up (ConversationsHistory (ch_id ch) lim)) \<Longrightarrow>
   \<exists>ch \<in> set chs. \<exists>m. up (ConversationsHistory (ch_id ch) lim) = Inl m
      \<and> fst (scan_channels up lim chs msgs log) = Inl (Error m)"
proof (induction chs arbitrary: msgs log)
  case Nil
  then show ?case by simp
next
  case (Cons ch chs)
  show ?case
  proof (cases "up (ConversationsHistory (ch_id ch) lim)")
    case (Inl m)
    then show ?thesis by (auto simp: fetch_def)
  next
    case (Inr data)
    with Cons.prems have "\<exists>ch \<in> set chs. isl (up (ConversationsHistory (ch_id ch) lim))"
      by auto
    from Cons.IH[OF this] Inr show ?thesis
      by (auto simp: fetch_def)
  qed
qed

lemma mentions_channelId_unscoped:
  "truthy (channel_id args) = None \<Longrightarrow> truthy (channel_name args) = None \<Longrightarrow>
   mentions_channelId up args log = (Inr None, log)"
  by (simp add: mentions_channelId_def)

lemma getMentions_unscoped_eq:
  assumes "truthy (channel_id args) = None" "truthy (channel_name args) = None"
  shows "getMentions up args u log =
     (case mentions_messages up args None log of
        (Inl e, log2) \<Rightarrow> (Inl e, log2)
      | (Inr msgs, log2) \<Rightarrow>
          (Inr \<lparr>mentions_ok = True,
                mentions = slice0 (limit_or 10 (limit args)) (filter (mentioned u) msgs)\<rparr>, log2))"
  by (simp add: getMentions_def mentions_channelId_unscoped[OF assms])

lemma mentions_messages_unscoped:
  "mentions_messages up args None log =
     (case up (ConversationsList 200 None) of
        Inl m \<Rightarrow> (Inl (Error m), log @ [ConversationsList 200 None])
      | Inr resp \<Rightarrow>
          if \<not> ok resp then (Inl (Error ''Failed to fetch channels list''), log @ [ConversationsList 200 None])
          else scan_channels up (limit_or 10 (limit args)) (channels resp) [] (log @ [ConversationsList 200 None]))"
  by (simp add: mentions_messages_def truthy_def getChannels_200 fetch_def split: sum.splits)

lemma getMentions_unscoped_ok:
  assumes "truthy (channel_id args) = None" "truthy (channel_name args) = None"
    and "up (ConversationsList 200 None) = Inr resp" and "ok resp"
    and "\<forall>ch \<in> set (channels resp).
           \<exists>data. up (ConversationsHistory (ch_id ch) (limit_or 10 (limit args))) = Inr data"
  shows "getMentions up args u log =
     (Inr \<lparr>mentions_ok = True,
           mentions = slice0 (limit_or 10 (limit args))
             (filter (mentioned u)
               (concat (map (upstream_history up (limit_or 10 (limit args))) (channels resp))))\<rparr>,
      log @ ConversationsList 200 None
        # map (\<lambda>ch. ConversationsHistory (ch_id ch) (limit_or 10 (limit args))) (channels resp))"
  using assms(3,4)
  by (simp add: getMentions_unscoped_eq[OF assms(1,2)] mentions_messages_unscoped
      scan_channels_ok[OF assms(5)])

lemma slice0_take: "0 \<le> n \<Longrightarrow> slice0 n xs = take (nat n) xs"
  by (simp add: slice0_def)

text \<open>
  Claim C3. An unscoped scan (no identifier and no name, each absent or empty) whose list
  call is answered by an ok response and whose history calls all return a body, with a
  limit that is not negative: the result is the concatenation, in the order of the
  channels of the list response, of what the upstream returned for each channel (in
  the order returned, nothing for a response that is not ok), filtered by the mention
  predicate and cut to the first \<open>limit\<close> entries. The requests are the list call
  followed by one history request per channel, in channel order, each with that limit.
\<close>

theorem getMentions_unscoped:
  assumes "channel_id args = None \<or> channel_id args = Some []"
    and "channel_name args = None \<or> channel_name args = Some []"
    and "up (ConversationsList 200 None) = Inr resp" and "ok resp"
    and "\<forall>ch \<in> set (channels resp).
           \<exists>data. up (ConversationsHistory (ch_id ch) (limit_or 10 (limit args))) = Inr data"
    and "0 \<le> limit_or 10 (limit args)"
  shows "getMentions up args u log =
     (Inr \<lparr>mentions_ok = True,
           mentions = take (nat (limit_or 10 (limit args)))
             (filter (mentioned u)
               (concat (map (upstream_history up (limit_or 10 (limit args))) (channels resp))))\<rparr>,
      log @ ConversationsList 200 None
        # map (\<lambda>ch. ConversationsHistory (ch_id ch) (limit_or 10 (limit args))) (channels resp))"
proof -
  have t: "truthy (channel_id args) = None" "truthy (channel_name args) = None"
    using assms(1,2) by (auto simp: truthy_def)
  show ?thesis
    using getMentions_unscoped_ok[OF t assms(3,4,5)] assms(6) by (simp add: slice0_take)
qed

theorem getMentions_unscoped_witness:
  "getMentions fixture (no_args\<lparr>limit := Some 4\<rparr>) ''U123'' [] =
     (Inr \<lparr>mentions_ok = True,
           mentions = [msg ''g3 <@U123>'' ''3.0'', msg ''g2 <@U123>'' ''2.0'',
                       msg ''g1 <@U123>'' ''1.0'', msg ''r3 <@U123>'' ''3.5'']\<rparr>,
      [ConversationsList 200 None, ConversationsHistory ''C1'' 4, ConversationsHistory ''C2'' 4])"
proof -
  have h: "fixture (ConversationsList 200 None) = Inr (empty_response\<lparr>channels := [general, random]\<rparr>)"
    by simp
  have o: "ok (empty_response\<lparr>channels := [general, random]\<rparr>)"
    by (simp add: empty_response_def)
  have a: "\<forall>ch \<in> set (channels (empty_response\<lparr>channels := [general, random]\<rparr>)).
           \<exists>data. fixture (ConversationsHistory (ch_id ch) (limit_or 10 (limit (no_args\<lparr>limit := Some 4\<rparr>)))) = Inr data"
    by (simp add: general_def random_def)
  have c: "channel_id (no_args\<lparr>limit := Some 4\<rparr>) = None \<or> channel_id (no_args\<lparr>limit := Some 4\<rparr>) = Some []"
      "channel_name (no_args\<lparr>limit := Some 4\<rparr>) = None \<or> channel_name (no_args\<lparr>limit := Some 4\<rparr>) = Some []"
    by (simp_all add: no_args_def)
  have z: "0 \<le> limit_or 10 (limit (no_args\<lparr>limit := Some 4\<rparr>))"
    by (simp add: limit_or_def)
  show ?thesis
    using getMentions_unscoped [OF c h o a z, of "''U123''" "[]"]
    by (simp add: limit_or_def upstream_history_def general_def random_def mentioned_def msg_def
        truthy_def mentionTag_def empty_response_def)
qed

section \<open>Mention scan with a channel scope\<close>

lemma resolveChannelId_log:
  "snd (resolveChannelId up cid cname log) = log
   \<or> snd (resolveChannelId up cid cname log) = log @ [ConversationsList 200 None]"
  by (simp add: resolveChannelId_def getChannels_200 fetch_def split: option.splits sum.splits)

lemma resolveChannelId_success_log:
  "truthy cid = None \<Longrightarrow> fst (resolveChannelId up cid cname log) = Inr c \<Longrightarrow>
   resolveChannelId up cid cname log = (Inr c, log @ [ConversationsList 200 None])
   \<and> truthy cname \<noteq> None"
  by (auto simp: resolveChannelId_def getChannels_200 fetch_def split: option.splits sum.splits if_splits)

lemma mentions_messages_scoped_log:
  "truthy cid = Some c \<Longrightarrow>
   snd (mentions_messages up args cid log) = log @ [ConversationsHistory c (limit_or 10 (limit args))]"
  by (simp add: mentions_messages_def fetch_def split: sum.splits)

lemma getMentions_snd:
  "snd (getMentions up args u log) =
     (case mentions_channelId up args log of
        (Inl e, log1) \<Rightarrow> log1
      | (Inr channelId, log1) \<Rightarrow> snd (mentions_messages up args channelId log1))"
  by (simp add: getMentions_def split: prod.splits sum.splits)

text \<open>
  Claim C8. A mention scan with a channel specified issues one history request, for that
  channel, and no request to list channels other than the one that name resolution
  makes: with a present identifier the only request is the history request for it; with
  no identifier and a name that \<open>resolveChannelId\<close> resolves to a non-empty
  identifier, the requests are that one list request followed by the history request for
  the resolved channel. This holds whatever the history request returns.
\<close>

theorem getMentions_scoped:
  "(channel_id args = Some c \<and> c \<noteq> []
      \<longrightarrow> snd (getMentions up args u log) = log @ [ConversationsHistory c (limit_or 10 (limit args))])
   \<and> ((channel_id args = None \<or> channel_id args = Some [])
        \<and> fst (resolveChannelId up None (channel_name args) log) = Inr c \<and> c \<noteq> []
      \<longrightarrow> snd (getMentions up args u log) =
            log @ [ConversationsList 200 None, ConversationsHistory c (limit_or 10 (limit args))])"
proof (intro conjI impI)
  assume "channel_id args = Some c \<and> c \<noteq> []"
  then have "truthy (channel_id args) = Some c"
    by (simp add: truthy_def)
  then have "mentions_channelId up args log = (Inr (Some c), log)"
    by (simp add: mentions_channelId_def)
  moreover have "truthy (Some c) = Some c"
    using \<open>channel_id args = Some c \<and> c \<noteq> []\<close> by (simp add: truthy_def)
  ultimately show "snd (getMentions up args u log) = log @ [ConversationsHistory c (limit_or 10 (limit args))]"
    by (simp add: getMentions_snd mentions_messages_scoped_log)
next
  assume a: "(channel_id args = None \<or> channel_id args = Some [])
        \<and> fst (resolveChannelId up None (channel_name args) log) = Inr c \<and> c \<noteq> []"
  then have t: "truthy (channel_id args) = None"
    by (auto simp: truthy_def)
  have n: "truthy None = None"
    by (simp add: truthy_def)
  from a resolveChannelId_success_log[OF n, of up "channel_name args" log c]
  have r: "resolveChannelId up None (channel_name args) log = (Inr c, log @ [ConversationsList 200 None])"
    and tn: "truthy (channel_name args) \<noteq> None"
    by simp_all
  from tn obtain nm where nm: "truthy (channel_name args) = Some nm"
    by auto
  then have "channel_name args = Some nm"
    by (simp add: truthy_Some_iff)
  with r nm t have "mentions_channelId up args log = (Inr (Some c), log @ [ConversationsList 200 None])"
    by (simp add: mentions_channelId_def)
  moreover have "truthy (Some c) = Some c"
    using a by (simp add: truthy_def)
  ultimately show "snd (getMentions up args u log) =
            log @ [ConversationsList 200 None, ConversationsHistory c (limit_or 10 (limit args))]"
    by (simp add: getMentions_snd mentions_messages_scoped_log)
qed

theorem getMentions_scoped_witness:
  "snd (getMentions fixture (no_args\<lparr>channel_id := Some ''C2''\<rparr>) ''U123'' [])
     = [ConversationsHistory ''C2'' 10]
   \<and> snd (getMentions fixture (no_args\<lparr>channel_name := Some ''general''\<rparr>) ''U123'' [])
     = [ConversationsList 200 None, ConversationsHistory ''C1'' 10]"
proof -
  have r: "fst (resolveChannelId fixture None (Some ''general'') []) = Inr ''C1''"
    by (simp add: resolveChannelId_def truthy_def getChannels_def fetch_def empty_response_def
        name_matches_def general_def random_def)
  show ?thesis
    using getMentions_scoped [of "no_args\<lparr>channel_id := Some ''C2''\<rparr>" "''C2''" fixture "''U123''" "[]"]
      getMentions_scoped [of "no_args\<lparr>channel_name := Some ''general''\<rparr>" "''C1''" fixture "''U123''" "[]"]
      r
    by (simp add: no_args_def limit_or_def)
qed

section \<open>The requests a scan may issue, and the zero limit\<close>

lemma scan_channels_requests:
  "set (snd (scan_channels up lim chs msgs log)) \<subseteq> set log \<union> {ConversationsHistory c lim | c. True}"
proof (induction chs arbitrary: msgs log)
  case Nil
  then show ?case by simp
next
  case (Cons ch chs)
  show ?case
  proof (cases "up (ConversationsHistory (ch_id ch) lim)")
    case (Inl m)
    then show ?thesis by (auto simp: fetch_def)
  next
    case (Inr data)
    then show ?thesis
      using Cons.IH[of "if ok data then msgs @ messages data else msgs" "log @ [ConversationsHistory (ch_id ch) lim]"]
      by (auto simp: fetch_def)
  qed
qed

lemma mentions_channelId_log:
  "snd (mentions_channelId up args log) = log
   \<or> snd (mentions_channelId up args log) = log @ [ConversationsList 200 None]"
  using resolveChannelId_log[of up None "channel_name args" log]
  by (auto simp: mentions_channelId_def truthy_Some_iff split: option.splits prod.splits sum.splits)

lemma mentions_messages_requests:
  "set (snd (mentions_messages up args cid log))
     \<subseteq> set log \<union> {ConversationsList 200 None} \<union> {ConversationsHistory c (limit_or 10 (limit args)) | c. True}"
proof (cases "truthy cid")
  case None
  show ?thesis
    using scan_channels_requests[of up "limit_or 10 (limit args)" _ "[]" "log @ [ConversationsList 200 None]"]
    by (auto simp: mentions_messages_def None getChannels_200 fetch_def split: sum.splits)
next
  case (Some c)
  then show ?thesis
    by (auto simp: mentions_messages_scoped_log)
qed

lemma getMentions_requests:
  "set (snd (getMentions up args u log))
     \<subseteq> set log \<union> {ConversationsList 200 None} \<union> {ConversationsHistory c (limit_or 10 (limit args)) | c. True}"
proof (cases "mentions_channelId up args log")
  case (Pair r log1)
  have l1: "set log1 \<subseteq> set log \<union> {ConversationsList 200 None}"
    using mentions_channelId_log[of up args log] Pair by auto
  show ?thesis
  proof (cases r)
    case (Inl e)
    with Pair l1 show ?thesis by (auto simp: getMentions_snd)
  next
    case (Inr cid)
    with Pair l1 mentions_messages_requests[of up args cid log1] show ?thesis
      by (auto simp: getMentions_snd)
  qed
qed

lemma getChannelMessages_requests:
  "set (snd (getChannelMessages up args log))
     \<subseteq> set log \<union> {ConversationsList 200 None} \<union> {ConversationsHistory c (limit_or 5 (limit args)) | c. True}"
proof (cases "resolveChannelId up (channel_id args) (channel_name args) log")
  case (Pair r log1)
  have l1: "set log1 \<subseteq> set log \<union> {ConversationsList 200 None}"
    using resolveChannelId_log[of up "channel_id args" "channel_name args" log] Pair by auto
  show ?thesis
    using Pair l1 by (cases r) (auto simp: getChannelMessages_def fetch_def)
qed

lemma limit_or_nonzero: "d \<noteq> 0 \<Longrightarrow> limit_or d l \<noteq> 0"
  by (simp add: limit_or_def split: option.splits)

lemma getChannelMessages_cong:
  assumes "channel_id a = channel_id b" "channel_name a = channel_name b"
    and "limit_or 5 (limit a) = limit_or 5 (limit b)"
  shows "getChannelMessages up a log = getChannelMessages up b log"
  unfolding getChannelMessages_def assms ..

lemma getMentions_cong:
  assumes "channel_id a = channel_id b" "channel_name a = channel_name b"
    and "limit_or 10 (limit a) = limit_or 10 (limit b)"
  shows "getMentions up a u log = getMentions up b u log"
  unfolding getMentions_def mentions_channelId_def mentions_messages_def assms ..

lemma getChannelMessages_falsy_limit:
  assumes "limit args = None \<or> limit args = Some 0"
    and "resolveChannelId up (channel_id args) (channel_name args) log = (Inr d, log1)"
  shows "getChannelMessages up args log =
     ((case up (ConversationsHistory d 5) of Inl m \<Rightarrow> Inl (Error m) | Inr r \<Rightarrow> Inr r),
      log1 @ [ConversationsHistory d 5])"
proof -
  have "limit_or 5 (limit args) = 5"
    using assms(1) by (auto simp: limit_or_def)
  then show ?thesis
    using assms(2) by (simp add: getChannelMessages_def fetch_def)
qed

lemma getMentions_scoped_falsy_limit:
  assumes "limit args = None \<or> limit args = Some 0"
    and "channel_id args = Some d" and "d \<noteq> []"
  shows "getMentions up args u log =
     ((case up (ConversationsHistory d 10) of
         Inl m \<Rightarrow> Inl (Error m)
       | Inr data \<Rightarrow>
           Inr \<lparr>mentions_ok = True,
                mentions = take 10 (filter (mentioned u) (if ok data then messages data else []))\<rparr>),
      log @ [ConversationsHistory d 10])"
proof -
  have l: "limit_or 10 (limit args) = 10"
    using assms(1) by (auto simp: limit_or_def)
  have t: "truthy (channel_id args) = Some d" "truthy (Some d) = Some d"
    using assms(2,3) by (simp_all add: truthy_def)
  have c: "mentions_channelId up args log = (Inr (Some d), log)"
    by (simp add: mentions_channelId_def t)
  show ?thesis
    by (cases "up (ConversationsHistory d 10)")
       (simp_all add: getMentions_def c mentions_messages_def t l fetch_def slice0_def)
qed

lemma getMentions_unscoped_falsy_limit:
  assumes "limit args = None \<or> limit args = Some 0"
    and "channel_id args = None \<or> channel_id args = Some []"
    and "channel_name args = None \<or> channel_name args = Some []"
    and "up (ConversationsList 200 None) = Inr resp" and "ok resp"
    and "\<forall>ch \<in> set (channels resp). \<exists>data. up (ConversationsHistory (ch_id ch) 10) = Inr data"
  shows "getMentions up args u log =
     (Inr \<lparr>mentions_ok = True,
           mentions = take 10
             (filter (mentioned u) (concat (map (upstream_history up 10) (channels resp))))\<rparr>,
      log @ ConversationsList 200 None
        # map (\<lambda>ch. ConversationsHistory (ch_id ch) 10) (channels resp))"
proof -
  have l: "limit_or 10 (limit args) = 10"
    using assms(1) by (auto simp: limit_or_def)
  have t: "truthy (channel_id args) = None" "truthy (channel_name args) = None"
    using assms(2,3) by (auto simp: truthy_def)
  have h: "\<forall>ch \<in> set (channels resp).
           \<exists>data. up (ConversationsHistory (ch_id ch) (limit_or 10 (limit args))) = Inr data"
    using assms(6) by (simp add: l)
  show ?thesis
    using getMentions_unscoped_ok[OF t assms(4,5) h, of u log] by (simp add: l slice0_def)
qed

text \<open>
  Claim C10. A limit of 0 is falsy: the channel-messages function and the mention scan
  called with limit 0 return what they return with the limit absent, which is what they
  return with the limits 5 and 10, for the requests issued as well as for the result.
  Neither function ever issues a history request with limit 0. With the limit 0 or
  absent, the channel-messages function issues, after the resolution of the channel,
  the history request for that channel with limit 5 and returns its outcome; the scoped
  mention scan issues the history request with limit 10 and keeps the first 10 mentions;
  the unscoped mention scan issues one history request with limit 10 per channel and
  keeps the first 10 mentions of the accumulated messages.
\<close>

theorem zero_limit_is_default:
  "getChannelMessages up (args\<lparr>limit := Some 0\<rparr>) log = getChannelMessages up (args\<lparr>limit := None\<rparr>) log
   \<and> getChannelMessages up (args\<lparr>limit := Some 0\<rparr>) log = getChannelMessages up (args\<lparr>limit := Some 5\<rparr>) log
   \<and> getMentions up (args\<lparr>limit := Some 0\<rparr>) u log = getMentions up (args\<lparr>limit := None\<rparr>) u log
   \<and> getMentions up (args\<lparr>limit := Some 0\<rparr>) u log = getMentions up (args\<lparr>limit := Some 10\<rparr>) u log
   \<and> ConversationsHistory c 0 \<notin> set (snd (getChannelMessages up args []))
   \<and> ConversationsHistory c 0 \<notin> set (snd (getMentions up args u []))
   \<and> ((limit args = None \<or> limit args = Some 0)
        \<and> resolveChannelId up (channel_id args) (channel_name args) log = (Inr d, log1)
      \<longrightarrow> getChannelMessages up args log =
            ((case up (ConversationsHistory d 5) of Inl m \<Rightarrow> Inl (Error m) | Inr r \<Rightarrow> Inr r),
             log1 @ [ConversationsHistory d 5]))
   \<and> ((limit args = None \<or> limit args = Some 0) \<and> channel_id args = Some d \<and> d \<noteq> []
      \<longrightarrow> getMentions up args u log =
            ((case up (ConversationsHistory d 10) of
                Inl m \<Rightarrow> Inl (Error m)
              | Inr data \<Rightarrow>
                  Inr \<lparr>mentions_ok = True,
                       mentions = take 10
                         (filter (mentioned u) (if ok data then messages data else []))\<rparr>),
             log @ [ConversationsHistory d 10]))
   \<and> ((limit args = None \<or> limit args = Some 0)
        \<and> (channel_id args = None \<or> channel_id args = Some [])
        \<and> (channel_name args = None \<or> channel_name args = Some [])
        \<and> up (ConversationsList 200 None) = Inr resp \<and> ok resp
        \<and> (\<forall>ch \<in> set (channels resp).
              \<exists>data. up (ConversationsHistory (ch_id ch) 10) = Inr data)
      \<longrightarrow> getMentions up args u log =
            (Inr \<lparr>mentions_ok = True,
                  mentions = take 10
                    (filter (mentioned u) (concat (map (upstream_history up 10) (channels resp))))\<rparr>,
             log @ ConversationsList 200 None
               # map (\<lambda>ch. ConversationsHistory (ch_id ch) 10) (channels resp)))"
proof -
  have 1: "getChannelMessages up (args\<lparr>limit := Some 0\<rparr>) log = getChannelMessages up (args\<lparr>limit := None\<rparr>) log"
    by (rule getChannelMessages_cong) (simp_all add: limit_or_def)
  have 2: "getChannelMessages up (args\<lparr>limit := Some 0\<rparr>) log = getChannelMessages up (args\<lparr>limit := Some 5\<rparr>) log"
    by (rule getChannelMessages_cong) (simp_all add: limit_or_def)
  have 3: "getMentions up (args\<lparr>limit := Some 0\<rparr>) u log = getMentions up (args\<lparr>limit := None\<rparr>) u log"
    by (rule getMentions_cong) (simp_all add: limit_or_def)
  have 4: "getMentions up (args\<lparr>limit := Some 0\<rparr>) u log = getMentions up (args\<lparr>limit := Some 10\<rparr>) u log"
    by (rule getMentions_cong) (simp_all add: limit_or_def)
  have 5: "ConversationsHistory c 0 \<notin> set (snd (getChannelMessages up args []))"
    using getChannelMessages_requests[of up args "[]"] limit_or_nonzero[of 5 "limit args"] by auto
  have 6: "ConversationsHistory c 0 \<notin> set (snd (getMentions up args u []))"
    using getMentions_requests[of up args u "[]"] limit_or_nonzero[of 10 "limit args"] by auto
  note 7 = getChannelMessages_falsy_limit[of args up log d log1]
  note 8 = getMentions_scoped_falsy_limit[of args d up u log]
  note 9 = getMentions_unscoped_falsy_limit[of args up resp u log]
  from 1 2 3 4 5 6 7 8 9 show ?thesis
    by (intro conjI impI) (assumption | (elim conjE, assumption) | blast)+
qed

theorem zero_limit_is_default_witness:
  "getChannelMessages fixture (no_args\<lparr>channel_name := Some ''general'', limit := Some 0\<rparr>) [] =
     (Inr (empty_response\<lparr>messages :=
        [msg ''g3 <@U123>'' ''3.0'', msg ''g2 <@U123>'' ''2.0'', msg ''g1 <@U123>'' ''1.0'']\<rparr>),
      [ConversationsList 200 None, ConversationsHistory ''C1'' 5])
   \<and> getMentions fixture (no_args\<lparr>channel_id := Some ''C2'', limit := Some 0\<rparr>) ''U123'' [] =
     (Inr \<lparr>mentions_ok = True,
           mentions = [msg ''r3 <@U123>'' ''3.5'', msg ''r2 <@U123>'' ''2.5'', msg ''r1 <@U123>'' ''1.5'']\<rparr>,
      [ConversationsHistory ''C2'' 10])
   \<and> getMentions fixture (no_args\<lparr>limit := Some 0\<rparr>) ''U123'' [] =
     (Inr \<lparr>mentions_ok = True,
           mentions = [msg ''g3 <@U123>'' ''3.0'', msg ''g2 <@U123>'' ''2.0'', msg ''g1 <@U123>'' ''1.0'',
                       msg ''r3 <@U123>'' ''3.5'', msg ''r2 <@U123>'' ''2.5'', msg ''r1 <@U123>'' ''1.5'']\<rparr>,
      [ConversationsList 200 None, ConversationsHistory ''C1'' 10, ConversationsHistory ''C2'' 10])"
proof -
  let ?a1 = "no_args\<lparr>channel_name := Some ''general'', limit := Some 0\<rparr>"
  let ?a2 = "no_args\<lparr>channel_id := Some ''C2'', limit := Some 0\<rparr>"
  let ?a3 = "no_args\<lparr>limit := Some 0\<rparr>"
  let ?resp = "empty_response\<lparr>channels := [general, random]\<rparr>"
  have h1: "(limit ?a1 = None \<or> limit ?a1 = Some 0)
      \<and> resolveChannelId fixture (channel_id ?a1) (channel_name ?a1) [] =
          (Inr ''C1'', [ConversationsList 200 None])"
    by (simp add: no_args_def resolveChannelId_def truthy_def getChannels_def fetch_def
        empty_response_def name_matches_def general_def random_def)
  from zero_limit_is_default [where args = ?a1 and up = fixture and log = "[]" and d = "''C1''"
      and ?log1.0 = "[ConversationsList 200 None]"] h1
  have "getChannelMessages fixture ?a1 [] =
          ((case fixture (ConversationsHistory ''C1'' 5) of Inl m \<Rightarrow> Inl (Error m) | Inr r \<Rightarrow> Inr r),
           [ConversationsList 200 None] @ [ConversationsHistory ''C1'' 5])"
    by blast
  then have 1: "getChannelMessages fixture ?a1 [] =
     (Inr (empty_response\<lparr>messages :=
        [msg ''g3 <@U123>'' ''3.0'', msg ''g2 <@U123>'' ''2.0'', msg ''g1 <@U123>'' ''1.0'']\<rparr>),
      [ConversationsList 200 None, ConversationsHistory ''C1'' 5])"
    by simp
  have h2: "(limit ?a2 = None \<or> limit ?a2 = Some 0) \<and> channel_id ?a2 = Some ''C2'' \<and> ''C2'' \<noteq> []"
    by (simp add: no_args_def)
  from zero_limit_is_default [where args = ?a2 and up = fixture and log = "[]" and d = "''C2''"
      and u = "''U123''"] h2
  have "getMentions fixture ?a2 ''U123'' [] =
            ((case fixture (ConversationsHistory ''C2'' 10) of
                Inl m \<Rightarrow> Inl (Error m)
              | Inr data \<Rightarrow>
                  Inr \<lparr>mentions_ok = True,
                       mentions = take 10
                         (filter (mentioned ''U123'') (if ok data then messages data else []))\<rparr>),
             [] @ [ConversationsHistory ''C2'' 10])"
    by blast
  then have 2: "getMentions fixture ?a2 ''U123'' [] =
     (Inr \<lparr>mentions_ok = True,
           mentions = [msg ''r3 <@U123>'' ''3.5'', msg ''r2 <@U123>'' ''2.5'', msg ''r1 <@U123>'' ''1.5'']\<rparr>,
      [ConversationsHistory ''C2'' 10])"
    by (simp add: empty_response_def mentioned_def mentionTag_def msg_def truthy_def)
  have h3: "(limit ?a3 = None \<or> limit ?a3 = Some 0)
        \<and> (channel_id ?a3 = None \<or> channel_id ?a3 = Some [])
        \<and> (channel_name ?a3 = None \<or> channel_name ?a3 = Some [])
        \<and> fixture (ConversationsList 200 None) = Inr ?resp \<and> ok ?resp
        \<and> (\<forall>ch \<in> set (channels ?resp).
              \<exists>data. fixture (ConversationsHistory (ch_id ch) 10) = Inr data)"
    by (simp add: no_args_def empty_response_def general_def random_def)
  from zero_limit_is_default [where args = ?a3 and up = fixture and log = "[]" and resp = ?resp
      and u = "''U123''"] h3
  have "getMentions fixture ?a3 ''U123'' [] =
            (Inr \<lparr>mentions_ok = True,
                  mentions = take 10
                    (filter (mentioned ''U123'')
                       (concat (map (upstream_history fixture 10) (channels ?resp))))\<rparr>,
             [] @ ConversationsList 200 None
               # map (\<lambda>ch. ConversationsHistory (ch_id ch) 10) (channels ?resp))"
    by blast
  then have 3: "getMentions fixture ?a3 ''U123'' [] =
     (Inr \<lparr>mentions_ok = True,
           mentions = [msg ''g3 <@U123>'' ''3.0'', msg ''g2 <@U123>'' ''2.0'', msg ''g1 <@U123>'' ''1.0'',
                       msg ''r3 <@U123>'' ''3.5'', msg ''r2 <@U123>'' ''2.5'', msg ''r1 <@U123>'' ''1.5'']\<rparr>,
      [ConversationsList 200 None, ConversationsHistory ''C1'' 10, ConversationsHistory ''C2'' 10])"
    by (simp add: upstream_history_def empty_response_def general_def random_def mentioned_def
        mentionTag_def msg_def truthy_def)
  from 1 2 3 show ?thesis by blast
qed

section \<open>Failures during an unscoped scan\<close>

text \<open>
  A history response that is not ok does not fail the scan: with the history of
  \<open>general\<close> answered by a response that is not ok, the scan goes on to \<open>random\<close>
  and returns its three messages.
\<close>

theorem getMentions_skips_not_ok:
  "not_member (ConversationsHistory ''C1'' 10) = Inr (empty_response\<lparr>ok := False\<rparr>)
   \<and> getMentions not_member no_args ''U123'' [] =
     (Inr \<lparr>mentions_ok = True,
           mentions = [msg ''r3 <@U123>'' ''3.5'', msg ''r2 <@U123>'' ''2.5'', msg ''r1 <@U123>'' ''1.5'']\<rparr>,
      [ConversationsList 200 None, ConversationsHistory ''C1'' 10, ConversationsHistory ''C2'' 10])"
  by (simp add: getMentions_def mentions_channelId_def mentions_messages_def no_args_def truthy_def
      getChannels_def fetch_def empty_response_def general_def random_def limit_or_def slice0_def
      mentioned_def mentionTag_def msg_def)

text \<open>
  Claim C4, amended. In an unscoped scan, a list call that rejects or that is answered by
  a response that is not ok fails the whole scan; a history fetch that rejects is not
  handled and its error is the failure of the scan; a history response that is not ok
  is skipped: it contributes no messages and the scan returns the filtered messages
  of the other channels.
\<close>

theorem getMentions_unscoped_failures:
  assumes "channel_id args = None \<or> channel_id args = Some []"
    and "channel_name args = None \<or> channel_name args = Some []"
  shows
   "(up (ConversationsList 200 None) = Inl m
       \<longrightarrow> fst (getMentions up args u log) = Inl (Error m))
    \<and> (up (ConversationsList 200 None) = Inr resp \<and> \<not> ok resp
       \<longrightarrow> fst (getMentions up args u log) = Inl (Error ''Failed to fetch channels list''))
    \<and> (up (ConversationsList 200 None) = Inr resp \<and> ok resp
        \<and> (\<exists>ch \<in> set (channels resp).
              isl (up (ConversationsHistory (ch_id ch) (limit_or 10 (limit args)))))
       \<longrightarrow> (\<exists>ch \<in> set (channels resp). \<exists>m'.
              up (ConversationsHistory (ch_id ch) (limit_or 10 (limit args))) = Inl m'
              \<and> fst (getMentions up args u log) = Inl (Error m')))
    \<and> (up (ConversationsList 200 None) = Inr resp \<and> ok resp
        \<and> (\<forall>ch \<in> set (channels resp).
              \<exists>data. up (ConversationsHistory (ch_id ch) (limit_or 10 (limit args))) = Inr data)
       \<longrightarrow> fst (getMentions up args u log) =
             Inr \<lparr>mentions_ok = True,
                  mentions = slice0 (limit_or 10 (limit args))
                    (filter (mentioned u)
                      (concat (map (upstream_history up (limit_or 10 (limit args))) (channels resp))))\<rparr>)
    \<and> (up (ConversationsHistory (ch_id c) lim) = Inr data \<and> \<not> ok data
       \<longrightarrow> upstream_history up lim c = [])"
proof -
  have t: "truthy (channel_id args) = None" "truthy (channel_name args) = None"
    using assms by (auto simp: truthy_def)
  note eq = getMentions_unscoped_eq[OF t, of up u log]
  have 1: "fst (getMentions up args u log) = Inl (Error m)"
    if "up (ConversationsList 200 None) = Inl m"
    using that by (simp add: eq mentions_messages_unscoped)
  have 2: "fst (getMentions up args u log) = Inl (Error ''Failed to fetch channels list'')"
    if "up (ConversationsList 200 None) = Inr resp" "\<not> ok resp"
    using that by (simp add: eq mentions_messages_unscoped)
  have 3: "\<exists>ch \<in> set (channels resp). \<exists>m'.
              up (ConversationsHistory (ch_id ch) (limit_or 10 (limit args))) = Inl m'
              \<and> fst (getMentions up args u log) = Inl (Error m')"
    if l: "up (ConversationsList 200 None) = Inr resp" "ok resp"
      and f: "\<exists>ch \<in> set (channels resp).
              isl (up (ConversationsHistory (ch_id ch) (limit_or 10 (limit args))))"
  proof -
    from scan_channels_fault[OF f, of "[]" "log @ [ConversationsList 200 None]"]
    obtain ch m' where ch: "ch \<in> set (channels resp)"
      and m': "up (ConversationsHistory (ch_id ch) (limit_or 10 (limit args))) = Inl m'"
      and s: "fst (scan_channels up (limit_or 10 (limit args)) (channels resp) []
                 (log @ [ConversationsList 200 None])) = Inl (Error m')"
      by blast
    have "fst (getMentions up args u log) = Inl (Error m')"
      using l s
      by (cases "scan_channels up (limit_or 10 (limit args)) (channels resp) []
                   (log @ [ConversationsList 200 None])")
         (simp add: eq mentions_messages_unscoped)
    with ch m' show ?thesis by blast
  qed
  have 4: "fst (getMentions up args u log) =
             Inr \<lparr>mentions_ok = True,
                  mentions = slice0 (limit_or 10 (limit args))
                    (filter (mentioned u)
                      (concat (map (upstream_history up (limit_or 10 (limit args))) (channels resp))))\<rparr>"
    if "up (ConversationsList 200 None) = Inr resp" "ok resp"
      "\<forall>ch \<in> set (channels resp).
              \<exists>data. up (ConversationsHistory (ch_id ch) (limit_or 10 (limit args))) = Inr data"
    using getMentions_unscoped_ok[OF t that, of u log] by simp
  have 5: "upstream_history up lim c = []"
    if "up (ConversationsHistory (ch_id c) lim) = Inr data" "\<not> ok data"
    using that by (simp add: upstream_history_def)
  from 1 2 3 4 5 show ?thesis by blast
qed

theorem getMentions_unscoped_failures_witness:
  "fst (getMentions rejecting no_args ''U123'' []) = Inl (Error ''fetch failed'')
   \<and> fst (getMentions not_member no_args ''U123'' []) =
       Inr \<lparr>mentions_ok = True,
            mentions = [msg ''r3 <@U123>'' ''3.5'', msg ''r2 <@U123>'' ''2.5'', msg ''r1 <@U123>'' ''1.5'']\<rparr>
   \<and> fst (getMentions (\<lambda>r. Inl ''down'') no_args ''U123'' []) = Inl (Error ''down'')
   \<and> fst (getMentions (\<lambda>r. Inr (empty_response\<lparr>ok := False\<rparr>)) no_args ''U123'' [])
       = Inl (Error ''Failed to fetch channels list'')
   \<and> upstream_history not_member 10 general = []"
proof -
  have d: "fst (getMentions (\<lambda>r. Inl ''down'') no_args ''U123'' []) = Inl (Error ''down'')"
    using getMentions_unscoped_failures [of no_args "\<lambda>r. Inl ''down''" "''down''" "''U123''" "[]"]
    by (simp add: no_args_def)
  have e: "fst (getMentions (\<lambda>r. Inr (empty_response\<lparr>ok := False\<rparr>)) no_args ''U123'' [])
       = Inl (Error ''Failed to fetch channels list'')"
    using getMentions_unscoped_failures [of no_args "\<lambda>r. Inr (empty_response\<lparr>ok := False\<rparr>)" _
        "''U123''" "[]" "empty_response\<lparr>ok := False\<rparr>"]
    by (simp add: no_args_def empty_response_def)
  have f: "upstream_history not_member 10 general = []"
    using getMentions_unscoped_failures [of no_args not_member _ _ _ _ general 10
        "empty_response\<lparr>ok := False\<rparr>"]
    by (simp add: no_args_def empty_response_def general_def)
  have c: "channel_id no_args = None \<or> channel_id no_args = Some []"
    "channel_name no_args = None \<or> channel_name no_args = Some []"
    by (simp_all add: no_args_def)
  have l: "limit_or 10 (limit no_args) = 10"
    by (simp add: no_args_def limit_or_def)
  have r: "rejecting (ConversationsList 200 None) = Inr (empty_response\<lparr>channels := [general, random]\<rparr>)
     \<and> ok (empty_response\<lparr>channels := [general, random]\<rparr>)
     \<and> (\<exists>ch \<in> set (channels (empty_response\<lparr>channels := [general, random]\<rparr>)).
              isl (rejecting (ConversationsHistory (ch_id ch) (limit_or 10 (limit no_args)))))"
    by (simp add: empty_response_def random_def)
  have n: "not_member (ConversationsList 200 None) = Inr (empty_response\<lparr>channels := [general, random]\<rparr>)
     \<and> ok (empty_response\<lparr>channels := [general, random]\<rparr>)
     \<and> (\<forall>ch \<in> set (channels (empty_response\<lparr>channels := [general, random]\<rparr>)).
           \<exists>data. not_member (ConversationsHistory (ch_id ch) (limit_or 10 (limit no_args))) = Inr data)"
    by (simp add: empty_response_def random_def general_def)
  from getMentions_unscoped_failures [OF c, of rejecting _ "''U123''" "[]"
      "empty_response\<lparr>channels := [general, random]\<rparr>"] r
  have "\<exists>ch \<in> set (channels (empty_response\<lparr>channels := [general, random]\<rparr>)). \<exists>m'.
              rejecting (ConversationsHistory (ch_id ch) (limit_or 10 (limit no_args))) = Inl m'
              \<and> fst (getMentions rejecting no_args ''U123'' []) = Inl (Error m')"
    by blast
  then have a: "fst (getMentions rejecting no_args ''U123'' []) = Inl (Error ''fetch failed'')"
    by (auto simp: l general_def random_def empty_response_def split: if_splits)
  from getMentions_unscoped_failures [OF c, of not_member _ "''U123''" "[]"
      "empty_response\<lparr>channels := [general, random]\<rparr>"] n
  have "fst (getMentions not_member no_args ''U123'' []) =
             Inr \<lparr>mentions_ok = True,
                  mentions = slice0 (limit_or 10 (limit no_args))
                    (filter (mentioned ''U123'')
                      (concat (map (upstream_history not_member (limit_or 10 (limit no_args)))
                         (channels (empty_response\<lparr>channels := [general, random]\<rparr>)))))\<rparr>"
    by blast
  then have b: "fst (getMentions not_member no_args ''U123'' []) =
       Inr \<lparr>mentions_ok = True,
            mentions = [msg ''r3 <@U123>'' ''3.5'', msg ''r2 <@U123>'' ''2.5'', msg ''r1 <@U123>'' ''1.5'']\<rparr>"
    by (simp add: l upstream_history_def general_def random_def empty_response_def slice0_def
        mentioned_def mentionTag_def msg_def truthy_def)
  from a b d e f show ?thesis by simp
qed

section \<open>Dispatch: what fails the request and what becomes a payload\<close>


text \<open>
  Claim C6. The \<open>send_message\<close> case of the \<open>main()\<close> server, called with a channel
  name and no text, lists the channels before it reports the missing text: the error
  payload comes with one upstream request in the log. The \<open>reply_to_thread\<close> case
  beside it checks all its arguments first and reports the missing text with an empty
  log.
\<close>

theorem send_message_lists_before_text_check:
  "main_CallTool fixture
      \<lparr>tool_name = ''send_message_on_slack'',
       arguments = Some (no_args\<lparr>channel_name := Some ''general''\<rparr>)\<rparr> [] =
     (Inr \<lparr>content = JsonError ''Missing required argument: text'', isError = False\<rparr>,
      [ConversationsList 200 None])
   \<and> main_CallTool fixture
      \<lparr>tool_name = ''reply_to_thread_on_slack'',
       arguments = Some (no_args\<lparr>channel_id := Some ''C1'', thread_ts := Some ''1.0''\<rparr>)\<rparr> [] =
     (Inr \<lparr>content = JsonError ''Missing required arguments: channel_id, thread_ts, and text'',
           isError = False\<rparr>, [])"
  by (simp add: main_CallTool_def main_switch_def main_send_message_def inline_channelId_def
      main_reply_to_thread_def no_args_def truthy_def getChannels_def fetch_def empty_response_def
      name_matches_def general_def random_def)














section \<open>The cached bot identity\<close>

lemma fetch_count:
  "req \<noteq> AuthTest \<Longrightarrow> count_list (snd (fetch up req log)) AuthTest = count_list log AuthTest"
  by (simp add: fetch_def)

lemma snd_respond_json: "snd (respond_json r) = snd r"
  by (simp add: respond_json_def split: prod.splits sum.splits)

lemma snd_catching: "snd (catching label r) = snd r"
  by (simp add: catching_def split: prod.splits sum.splits)

lemma resolveChannelId_count:
  "count_list (snd (resolveChannelId up cid cname log)) AuthTest = count_list log AuthTest"
  using resolveChannelId_log[of up cid cname log] by auto

lemma scan_channels_count:
  "count_list (snd (scan_channels up lim chs msgs log)) AuthTest = count_list log AuthTest"
proof (induction chs arbitrary: msgs log)
  case Nil
  then show ?case by simp
next
  case (Cons ch chs)
  show ?case
  proof (cases "up (ConversationsHistory (ch_id ch) lim)")
    case (Inl m)
    then show ?thesis by (simp add: fetch_def)
  next
    case (Inr data)
    then show ?thesis
      using Cons.IH[of "if ok data then msgs @ messages data else msgs" "log @ [ConversationsHistory (ch_id ch) lim]"]
      by (simp add: fetch_def)
  qed
qed

lemma mentions_messages_count:
  "count_list (snd (mentions_messages up args cid log)) AuthTest = count_list log AuthTest"
proof (cases "truthy cid")
  case None
  show ?thesis
    using scan_channels_count[of up "limit_or 10 (limit args)" _ "[]" "log @ [ConversationsList 200 None]"]
    by (simp add: mentions_messages_def None getChannels_200 fetch_def split: sum.splits)
next
  case (Some c)
  then show ?thesis
    by (simp add: mentions_messages_scoped_log)
qed

lemma getMentions_count:
  "count_list (snd (getMentions up args u log)) AuthTest = count_list log AuthTest"
proof (cases "mentions_channelId up args log")
  case (Pair r log1)
  have l1: "count_list log1 AuthTest = count_list log AuthTest"
    using mentions_channelId_log[of up args log] Pair by auto
  show ?thesis
    using Pair l1 mentions_messages_count[of up args _ log1]
    by (cases r) (simp_all add: getMentions_snd)
qed

lemma getChannelMessages_count:
  "count_list (snd (getChannelMessages up args log)) AuthTest = count_list log AuthTest"
proof (cases "resolveChannelId up (channel_id args) (channel_name args) log")
  case (Pair r log1)
  have l1: "count_list log1 AuthTest = count_list log AuthTest"
    using resolveChannelId_count[of up "channel_id args" "channel_name args" log] Pair by simp
  show ?thesis
    using Pair l1 by (cases r) (simp_all add: getChannelMessages_def fetch_def)
qed

lemma handler_channelId_count:
  "count_list (snd (handler_channelId up args log)) AuthTest = count_list log AuthTest"
proof (cases "resolveChannelId up None (channel_name args) log")
  case (Pair r log1)
  have l1: "count_list log1 AuthTest = count_list log AuthTest"
    using resolveChannelId_count[of up None "channel_name args" log] Pair by simp
  show ?thesis
    using Pair l1
    by (cases r) (auto simp: handler_channelId_def truthy_Some_iff split: option.splits)
qed

lemma with_channel_count:
  assumes "\<And>a c l. count_list (snd (call a c l)) AuthTest = count_list l AuthTest"
  shows "count_list (snd (with_channel up args call log)) AuthTest = count_list log AuthTest"
proof (cases args)
  case None
  then show ?thesis by (simp add: with_channel_def)
next
  case (Some a)
  show ?thesis
  proof (cases "handler_channelId up a log")
    case (Pair r log1)
    have l1: "count_list log1 AuthTest = count_list log AuthTest"
      using handler_channelId_count[of up a log] Pair by simp
    show ?thesis
      using Pair l1 Some assms
      by (cases r) (auto simp: with_channel_def snd_respond_json split: option.splits)
  qed
qed

lemma handlers_count:
  "count_list (snd (handleListChannels up s args log)) AuthTest = count_list log AuthTest"
  "count_list (snd (handlePostMessage up s args log)) AuthTest = count_list log AuthTest"
  "count_list (snd (handleReplyToThread up s args log)) AuthTest = count_list log AuthTest"
  "count_list (snd (handleGetChannelHistory up s args log)) AuthTest = count_list log AuthTest"
  "count_list (snd (handleGetThreadReplies up s args log)) AuthTest = count_list log AuthTest"
  "count_list (snd (handleGetUsers up s args log)) AuthTest = count_list log AuthTest"
  "count_list (snd (handleGetUserProfile up s args log)) AuthTest = count_list log AuthTest"
  "count_list (snd (handleGetChannelMessages up s args log)) AuthTest = count_list log AuthTest"
  by (simp_all add: handleListChannels_def handlePostMessage_def handleReplyToThread_def
      handleGetChannelHistory_def handleGetThreadReplies_def handleGetUsers_def
      handleGetUserProfile_def handleGetChannelMessages_def handleListChannels_try_def
      handlePostMessage_try_def handleReplyToThread_try_def handleGetChannelHistory_try_def
      handleGetThreadReplies_try_def handleGetUsers_try_def handleGetUserProfile_try_def
      handleGetChannelMessages_try_def snd_catching snd_respond_json
      with_channel_count getChannels_def getUsers_def getUserProfile_def postMessage_def
      postReply_def getChannelHistory_def getThreadReplies_def fetch_count getChannelMessages_count
      split: option.splits)

lemma handleGetMentions_cached:
  assumes "slackBotUserId s = Some u" and "u \<noteq> []"
  shows "fst (snd (handleGetMentions up s args log)) = s
    \<and> count_list (snd (snd (handleGetMentions up s args log))) AuthTest = count_list log AuthTest"
proof -
  have t: "truthy (slackBotUserId s) = Some u"
    using assms by (simp add: truthy_def)
  show ?thesis
  proof (cases "slackClient s")
    case None
    then show ?thesis by (simp add: handleGetMentions_def)
  next
    case (Some client)
    show ?thesis
    proof (cases args)
      case None
      then show ?thesis
        by (simp add: handleGetMentions_def handleGetMentions_try_def Some t catching_def)
    next
      case (Some a)
      then show ?thesis
        using getMentions_count[of up a u log]
        by (cases "getMentions up a u log")
           (auto simp: handleGetMentions_def handleGetMentions_try_def
              \<open>slackClient s = Some client\<close> t catching_def
              split: sum.splits)
    qed
  qed
qed

lemma snd_handled: "snd (handled s r) = (s, snd r)"
  by (simp add: handled_def split: prod.splits)

lemma snd_mentions_case:
  "snd (case p of (res, x) \<Rightarrow> (Inr res, x)) = snd p"
  by (simp split: prod.splits)

lemma server_CallTool_cached:
  assumes "slackBotUserId s = Some u" and "u \<noteq> []"
  shows "fst (snd (server_CallTool up s req log)) = s
    \<and> count_list (snd (snd (server_CallTool up s req log))) AuthTest = count_list log AuthTest"
  using handleGetMentions_cached[OF assms, of up "arguments req" log]
  by (simp add: server_CallTool_def Let_def snd_handled snd_mentions_case handlers_count)

lemma serve_cached:
  assumes "slackBotUserId s = Some u" and "u \<noteq> []"
  shows "fst (serve up s reqs log) = s
    \<and> count_list (snd (serve up s reqs log)) AuthTest = count_list log AuthTest"
proof (induction reqs arbitrary: log)
  case Nil
  then show ?case by simp
next
  case (Cons req reqs)
  obtain res s1 log1 where r: "server_CallTool up s req log = (res, s1, log1)"
    by (cases "server_CallTool up s req log") auto
  with server_CallTool_cached[OF assms, of up req log]
  have "s1 = s" "count_list log1 AuthTest = count_list log AuthTest"
    by simp_all
  with Cons.IH[of log1] r show ?case
    by simp
qed

lemma run_fetches_once:
  assumes "run up tok [] = Some (s0, log0)"
  shows "count_list log0 AuthTest = 1" and "slackBotUserId s0 = Some u \<Longrightarrow> u \<noteq> []"
  using assms
  by (auto simp: run_def fetchBotUserId_def fetch_def truthy_Some_iff
      split: option.splits sum.splits if_splits)

text \<open>
  Claim C9. Once the server holds a bot identity (a non-empty \<open>slackBotUserId\<close>), no
  sequence of tool calls, mention calls included, changes it or issues another
  \<open>auth.test\<close> request: the number of such requests in the log stays what it was. In
  particular, when \<open>run()\<close> has obtained the identity at startup, the log of the
  whole process holds exactly one \<open>auth.test\<close> request however many calls are
  served.
\<close>

theorem bot_identity_cached:
  "(slackBotUserId s = Some u \<and> u \<noteq> []
      \<longrightarrow> slackBotUserId (fst (serve up s reqs log)) = Some u
          \<and> count_list (snd (serve up s reqs log)) AuthTest = count_list log AuthTest)
   \<and> (run up tok [] = Some (s0, log0) \<and> slackBotUserId s0 = Some u
      \<longrightarrow> slackBotUserId (fst (serve up s0 reqs log0)) = Some u
          \<and> count_list (snd (serve up s0 reqs log0)) AuthTest = 1)"
proof -
  have 1: "slackBotUserId (fst (serve up s reqs log)) = Some u
          \<and> count_list (snd (serve up s reqs log)) AuthTest = count_list log AuthTest"
    if "slackBotUserId s = Some u" "u \<noteq> []"
    using serve_cached[OF that, of up reqs log] that by simp
  have 2: "slackBotUserId (fst (serve up s0 reqs log0)) = Some u
          \<and> count_list (snd (serve up s0 reqs log0)) AuthTest = 1"
    if r: "run up tok [] = Some (s0, log0)" and i: "slackBotUserId s0 = Some u"
  proof -
    have "u \<noteq> []" and "count_list log0 AuthTest = 1"
      using run_fetches_once[OF r] i by simp_all
    then show ?thesis
      using serve_cached[OF i, of up reqs log0] i by simp
  qed
  from 1 2 show ?thesis by blast
qed

theorem bot_identity_cached_witness:
  "run fixture (Some ''xoxb-token'') [] = Some (ready, [AuthTest])
   \<and> slackBotUserId (fst (serve fixture ready
        [\<lparr>tool_name = ''get_mentions_on_slack'', arguments = Some no_args\<rparr>,
         \<lparr>tool_name = ''get_mentions_on_slack'', arguments = Some (no_args\<lparr>channel_id := Some ''C1''\<rparr>)\<rparr>]
        [AuthTest])) = Some ''U123''
   \<and> count_list (snd (serve fixture ready
        [\<lparr>tool_name = ''get_mentions_on_slack'', arguments = Some no_args\<rparr>,
         \<lparr>tool_name = ''get_mentions_on_slack'', arguments = Some (no_args\<lparr>channel_id := Some ''C1''\<rparr>)\<rparr>]
        [AuthTest])) AuthTest = 1"
proof -
  have r: "run fixture (Some ''xoxb-token'') [] = Some (ready, [AuthTest])"
    by (simp add: run_def initializeSlackClient_def truthy_def fetchBotUserId_def fetch_def
        empty_response_def ready_def)
  have i: "slackBotUserId ready = Some ''U123''"
    by (simp add: ready_def)
  show ?thesis
    using bot_identity_cached [of ready "''U123''" fixture
        "[\<lparr>tool_name = ''get_mentions_on_slack'', arguments = Some no_args\<rparr>,
          \<lparr>tool_name = ''get_mentions_on_slack'', arguments = Some (no_args\<lparr>channel_id := Some ''C1''\<rparr>)\<rparr>]"
        "[AuthTest]" "Some ''xoxb-token''" ready "[AuthTest]"] r i
    by simp
qed

end
